theory Spec2Isabelle
  imports Complex_Main
begin

section \<open>Data model of the spaced-repetition scheduler\<close>

text \<open>
  The scheduler lives in the page component (\<^verbatim>\<open>function applyAnswer\<close> and its helpers under
  the heading "Core Logic"). TypeScript \<^verbatim>\<open>number\<close> fields that hold counts, ids and day
  intervals are modelled as \<^typ>\<open>int\<close>. Several source types have fields called
  \<^verbatim>\<open>id\<close>, \<^verbatim>\<open>name\<close>, \<^verbatim>\<open>word\<close>, \<^verbatim>\<open>hint\<close> and \<^verbatim>\<open>definition\<close>; record fields share one name space
  here, so those fields carry a prefix naming their type.

  A JavaScript \<^verbatim>\<open>Date\<close> is modelled by the local calendar day it falls on and the milliseconds
  elapsed since local midnight. \<^verbatim>\<open>setHours(0, 0, 0, 0)\<close> clears the second component and
  \<^verbatim>\<open>setDate(getDate() + days)\<close> moves the first. \<^verbatim>\<open>toISOString\<close> is injective on dates,
  so an ISO date string is represented by the date it denotes.
\<close>

record Date =
  localDay :: int
  msOfDay :: nat

type_synonym ISODateString = Date

record LevelConfig =
  level_id :: int
  level_name :: string
  promoteAfterCorrect :: int
  intervalDays :: int

record AppConfig =
  levels :: "LevelConfig list"
  wrongMakesImmediatelyDue :: bool
  wrongResetsStreak :: bool

datatype AnswerResult = ResultRight | ResultWrong

record WordItem =
  w_id :: string
  w_word :: string
  w_hint :: string
  w_definition :: string
  createdAt :: ISODateString
  updatedAt :: ISODateString
  levelId :: int
  streakCorrect :: int
  totalRight :: int
  totalWrong :: int
  lastReviewedAt :: "ISODateString option"
  dueAt :: ISODateString
  lastResult :: "AnswerResult option"

definition defaultConfig :: AppConfig where
  "defaultConfig =
     \<lparr>levels =
        [\<lparr>level_id = 1, level_name = ''Level 1'', promoteAfterCorrect = 3, intervalDays = 1\<rparr>,
         \<lparr>level_id = 2, level_name = ''Level 2'', promoteAfterCorrect = 2, intervalDays = 7\<rparr>,
         \<lparr>level_id = 3, level_name = ''Level 3'', promoteAfterCorrect = 1, intervalDays = 30\<rparr>],
      wrongMakesImmediatelyDue = True,
      wrongResetsStreak = True\<rparr>"

subsection \<open>Utilities\<close>

text \<open>
  \<^verbatim>\<open>todayStartLocal\<close> reads the clock itself (\<^verbatim>\<open>new Date()\<close>); the reading is a parameter here.
\<close>

definition todayStartLocal :: "Date \<Rightarrow> Date" where
  "todayStartLocal clock = clock\<lparr>msOfDay := 0\<rparr>"

definition addDays :: "Date \<Rightarrow> int \<Rightarrow> Date" where
  "addDays date days = date\<lparr>localDay := localDay date + days\<rparr>"

definition toISO :: "Date \<Rightarrow> ISODateString" where
  "toISO d = d"

text \<open>\<^verbatim>\<open>Math.min(max, Math.max(min, Math.trunc(n)))\<close>; truncation is the identity on integers.\<close>

definition clampInt :: "int \<Rightarrow> int \<Rightarrow> int \<Rightarrow> int" where
  "clampInt n mn mx = min mx (max mn n)"

subsection \<open>Level lookup\<close>

definition maxLevel :: "AppConfig \<Rightarrow> int" where
  "maxLevel cfg =
     (let ids = map level_id (levels cfg)
      in if ids \<noteq> [] then Max (set ids) else 1)"

text \<open>
  The loop of \<^verbatim>\<open>clampToExistingLevel\<close> carries \<^verbatim>\<open>best\<close> and \<^verbatim>\<open>bestDist\<close> through the sorted ids;
  its parameter \<^verbatim>\<open>levelId\<close> is written \<open>lid\<close>, the field of \<^typ>\<open>WordItem\<close> having that name.
\<close>

definition closestStep :: "int \<Rightarrow> int \<Rightarrow> int \<times> int \<Rightarrow> int \<times> int" where
  "closestStep lid i acc =
     (let d = \<bar>i - lid\<bar>
      in if d < snd acc then (i, d) else acc)"

definition clampToExistingLevel :: "int \<Rightarrow> AppConfig \<Rightarrow> int" where
  "clampToExistingLevel lid cfg =
     (let ids = map level_id (levels cfg)
      in if lid \<in> set ids then lid
         else
           let sorted = sort ids
           in case sorted of
                [] \<Rightarrow> 1
              | first # _ \<Rightarrow>
                  let mn = first; mx = last sorted
                  in if lid < mn then mn
                     else if lid > mx then mx
                     else fst (fold (closestStep lid) sorted (first, \<bar>first - lid\<bar>)))"

definition nextHigherLevelId :: "int \<Rightarrow> AppConfig \<Rightarrow> int" where
  "nextHigherLevelId current cfg =
     (let sorted = sort (map level_id (levels cfg))
      in case find (\<lambda>i. i > current) sorted of
           Some i \<Rightarrow> i
         | None \<Rightarrow> (if sorted = [] then current else last sorted))"

text \<open>
  \<^verbatim>\<open>config.levels.find((l) => l.id === word.levelId) ?? config.levels[0]\<close>: the first level
  with the word's id, else the first configured level, else \<^verbatim>\<open>undefined\<close>.
\<close>

definition lookupLevel :: "AppConfig \<Rightarrow> int \<Rightarrow> LevelConfig option" where
  "lookupLevel config lid =
     (case find (\<lambda>l. level_id l = lid) (levels config) of
        Some l \<Rightarrow> Some l
      | None \<Rightarrow> (case levels config of [] \<Rightarrow> None | l0 # _ \<Rightarrow> Some l0))"

subsection \<open>The scheduler\<close>

text \<open>
  \<^verbatim>\<open>applyAnswer\<close> takes the word, the outcome, the configuration and the optional
  \<^verbatim>\<open>isCleanRun\<close> flag (absent means \<^verbatim>\<open>true\<close>). It reads the clock twice: \<^verbatim>\<open>now\<close> at entry and
  once more inside \<^verbatim>\<open>todayStartLocal\<close>; both readings are parameters.
\<close>

definition applyAnswer ::
  "WordItem \<Rightarrow> bool \<Rightarrow> AppConfig \<Rightarrow> bool option \<Rightarrow> Date \<Rightarrow> Date \<Rightarrow> WordItem" where
  "applyAnswer word right config isCleanRunArg now clock2 =
     (let isCleanRun = (case isCleanRunArg of None \<Rightarrow> True | Some b \<Rightarrow> b);
          nowIso = toISO now;
          level = lookupLevel config (levelId word);
          maxLevelId = maxLevel config;
          updated = word\<lparr>updatedAt := nowIso,
                         lastReviewedAt := Some nowIso,
                         lastResult := Some (if right then ResultRight else ResultWrong),
                         totalRight := totalRight word + (if right then 1 else 0),
                         totalWrong := totalWrong word + (if \<not> right then 1 else 0)\<rparr>
      in if \<not> right then
           (let u1 = (if wrongResetsStreak config then updated\<lparr>streakCorrect := 0\<rparr> else updated)
            in if wrongMakesImmediatelyDue config then u1\<lparr>dueAt := nowIso\<rparr>
               else u1\<lparr>dueAt := dueAt word\<rparr>)
         else
           (let nextStreak = (if isCleanRun then streakCorrect word + 1 else streakCorrect word);
                u1 = updated\<lparr>streakCorrect := nextStreak\<rparr>;
                base = todayStartLocal clock2;
                interval = clampInt (case level of None \<Rightarrow> 0 | Some l \<Rightarrow> intervalDays l) 0 3650;
                u2 = u1\<lparr>dueAt := toISO (addDays base interval)\<rparr>;
                threshold =
                  clampInt (case level of None \<Rightarrow> 1 | Some l \<Rightarrow> promoteAfterCorrect l) 1 99
            in if isCleanRun \<and> levelId word < maxLevelId \<and> nextStreak \<ge> threshold then
                 (let nextLevelId = nextHigherLevelId (levelId word) config;
                      promotedLevel = find (\<lambda>l. level_id l = nextLevelId) (levels config);
                      promotedInterval =
                        clampInt (case promotedLevel of None \<Rightarrow> interval
                                  | Some l \<Rightarrow> intervalDays l) 0 3650
                  in u2\<lparr>levelId := nextLevelId,
                        streakCorrect := 0,
                        dueAt := toISO (addDays base promotedInterval)\<rparr>)
               else u2))"

subsection \<open>Repeated answers and sample data\<close>

definition sampleWord :: "int \<Rightarrow> int \<Rightarrow> WordItem" where
  "sampleWord lvl streak =
     \<lparr>w_id = ''w1'', w_word = ''ubiquitous'', w_hint = ''everywhere'',
      w_definition = ''present everywhere'',
      createdAt = \<lparr>localDay = 90, msOfDay = 0\<rparr>, updatedAt = \<lparr>localDay = 90, msOfDay = 0\<rparr>,
      levelId = lvl, streakCorrect = streak, totalRight = 0, totalWrong = 0,
      lastReviewedAt = None, dueAt = \<lparr>localDay = 90, msOfDay = 0\<rparr>, lastResult = None\<rparr>"

definition sampleNow :: Date where
  "sampleNow = \<lparr>localDay = 100, msOfDay = 34200000\<rparr>"

text \<open>
  A configuration as \<^verbatim>\<open>getConfig\<close> may return it from the store: \<^verbatim>\<open>applyAnswer\<close> receives the
  stored JSON as it is, and nothing bounds the numbers in it.
\<close>

definition wideConfig :: AppConfig where
  "wideConfig =
     \<lparr>levels =
        [\<lparr>level_id = 1, level_name = ''Level 1'', promoteAfterCorrect = 150, intervalDays = 5000\<rparr>,
         \<lparr>level_id = 2, level_name = ''Level 2'', promoteAfterCorrect = 1, intervalDays = 4000\<rparr>],
      wrongMakesImmediatelyDue = True,
      wrongResetsStreak = True\<rparr>"

text \<open>
  The practice loop answers the same word again and again; each answer comes with its own
  clean-run flag and clock readings.
\<close>

fun repeatRight :: "WordItem \<Rightarrow> AppConfig \<Rightarrow> (bool option \<times> Date \<times> Date) list \<Rightarrow> WordItem" where
  "repeatRight word config [] = word"
| "repeatRight word config ((icr, now, clock2) # rest) =
     repeatRight (applyAnswer word True config icr now clock2) config rest"

section \<open>Versus mode\<close>

text \<open>
  A versus room as \<^verbatim>\<open>versus-operations.ts\<close> declares it, without the room code, the player
  names and the creation and update stamps, which no transition below reads. Instants are
  milliseconds since the epoch, as \<^verbatim>\<open>Date.now()\<close> returns them.
\<close>

datatype VersusRoomStatus = VersusWaiting | VersusActive | VersusFinished

record VersusWord =
  vw_id :: string
  vw_word :: string
  vw_hint :: string
  vw_definition :: string

record VersusRoom =
  vr_id :: string
  playerAId :: string
  playerBId :: "string option"
  vr_status :: VersusRoomStatus
  currentTurn :: "string option"
  playerAWords :: "VersusWord list"
  playerBWords :: "VersusWord list"
  playerAIndex :: int
  playerBIndex :: int
  playerAWrongCount :: int
  playerBWrongCount :: int
  playerARightCount :: int
  playerBRightCount :: int
  playerATime :: int
  playerBTime :: int
  turnStartTime :: "int option"
  winnerId :: "string option"

text \<open>
  The argument of \<^verbatim>\<open>updateVersusRoom\<close> is a partial object: a field that is \<^verbatim>\<open>undefined\<close> is
  \<open>None\<close> and is left alone; \<^verbatim>\<open>null\<close> is a value (\<open>Some None\<close>) and is written.
\<close>

record VersusUpdates =
  u_status :: "VersusRoomStatus option"
  u_currentTurn :: "string option option"
  u_playerAIndex :: "int option"
  u_playerBIndex :: "int option"
  u_playerAWrongCount :: "int option"
  u_playerBWrongCount :: "int option"
  u_playerARightCount :: "int option"
  u_playerBRightCount :: "int option"
  u_playerATime :: "int option"
  u_playerBTime :: "int option"
  u_turnStartTime :: "int option option"
  u_winnerId :: "string option option"

definition noUpdates :: VersusUpdates where
  "noUpdates =
     \<lparr>u_status = None, u_currentTurn = None, u_playerAIndex = None, u_playerBIndex = None,
      u_playerAWrongCount = None, u_playerBWrongCount = None, u_playerARightCount = None,
      u_playerBRightCount = None, u_playerATime = None, u_playerBTime = None,
      u_turnStartTime = None, u_winnerId = None\<rparr>"

definition orKeep :: "'a option \<Rightarrow> 'a \<Rightarrow> 'a" where
  "orKeep u old = (case u of None \<Rightarrow> old | Some v \<Rightarrow> v)"

text \<open>The stored row after \<^verbatim>\<open>updateVersusRoom(room.id, updates)\<close>.\<close>

definition updateVersusRoom :: "VersusUpdates \<Rightarrow> VersusRoom \<Rightarrow> VersusRoom" where
  "updateVersusRoom updates row =
     row\<lparr>vr_status := orKeep (u_status updates) (vr_status row),
         currentTurn := orKeep (u_currentTurn updates) (currentTurn row),
         playerAIndex := orKeep (u_playerAIndex updates) (playerAIndex row),
         playerBIndex := orKeep (u_playerBIndex updates) (playerBIndex row),
         playerAWrongCount := orKeep (u_playerAWrongCount updates) (playerAWrongCount row),
         playerBWrongCount := orKeep (u_playerBWrongCount updates) (playerBWrongCount row),
         playerARightCount := orKeep (u_playerARightCount updates) (playerARightCount row),
         playerBRightCount := orKeep (u_playerBRightCount updates) (playerBRightCount row),
         playerATime := orKeep (u_playerATime updates) (playerATime row),
         playerBTime := orKeep (u_playerBTime updates) (playerBTime row),
         turnStartTime := orKeep (u_turnStartTime updates) (turnStartTime row),
         winnerId := orKeep (u_winnerId updates) (winnerId row)\<rparr>"

text \<open>
  \<^verbatim>\<open>finishGame\<close> is a closure of the component: it reads the component's \<^verbatim>\<open>room\<close> state and
  writes to the stored row. The state value is the parameter \<open>room\<close>, the stored row is
  \<open>row\<close>, and \<open>clock\<close> is the reading of \<^verbatim>\<open>new Date()\<close> for the new turn start.
\<close>

definition finishGame :: "VersusRoom option \<Rightarrow> bool \<Rightarrow> int \<Rightarrow> VersusRoom \<Rightarrow> VersusRoom" where
  "finishGame roomState playerAFinished clock row =
     (case roomState of
        None \<Rightarrow> row
      | Some room \<Rightarrow>
          let otherPlayerIndex = (if playerAFinished then playerBIndex room else playerAIndex room);
              otherPlayerTotal =
                (if playerAFinished then int (length (playerBWords room))
                 else int (length (playerAWords room)))
          in if otherPlayerIndex \<ge> otherPlayerTotal then
               (let playerAScore = playerARightCount room;
                    playerBScore = playerBRightCount room;
                    winner =
                      (if playerAScore > playerBScore then Some (playerAId room)
                       else if playerBScore > playerAScore then playerBId room
                       else if playerATime room < playerBTime room then Some (playerAId room)
                       else playerBId room)
                in updateVersusRoom
                     (noUpdates\<lparr>u_status := Some VersusFinished, u_winnerId := Some winner,
                                u_currentTurn := Some None\<rparr>) row)
             else
               (let currentWrongCount =
                      (if playerAFinished then playerAWrongCount room else playerBWrongCount room)
                in if currentWrongCount = 0 then
                     (let nextTurn = (if playerAFinished then playerBId room else Some (playerAId room))
                      in updateVersusRoom
                           (noUpdates\<lparr>u_currentTurn := Some nextTurn,
                                      u_turnStartTime := Some (Some clock)\<rparr>) row)
                   else
                     (let playerAScore = playerARightCount room;
                          playerBScore = playerBRightCount room;
                          winner =
                            (if playerAScore > playerBScore then Some (playerAId room)
                             else if playerBScore > playerAScore then playerBId room
                             else if playerAFinished then Some (playerAId room)
                             else playerBId room)
                      in updateVersusRoom
                           (noUpdates\<lparr>u_status := Some VersusFinished, u_winnerId := Some winner,
                                      u_currentTurn := Some None\<rparr>) row)))"

text \<open>
  \<^verbatim>\<open>handleAnswer\<close>, likewise a closure over \<^verbatim>\<open>room\<close>. \<open>clockNow\<close> is the reading of
  \<^verbatim>\<open>Date.now()\<close> for the elapsed turn time, \<open>clockTurn\<close> the reading that becomes the next
  \<^verbatim>\<open>turnStartTime\<close>. The calls \<^verbatim>\<open>finishGame(isPlayerA)\<close> run in the same closure, so they read
  the same \<open>room\<close> value as \<^verbatim>\<open>handleAnswer\<close> itself.
\<close>

definition handleAnswer ::
  "VersusRoom option \<Rightarrow> string \<Rightarrow> bool \<Rightarrow> int \<Rightarrow> int \<Rightarrow> VersusRoom \<Rightarrow> VersusRoom" where
  "handleAnswer roomState currentUserId correct clockNow clockTurn row =
     (case roomState of
        None \<Rightarrow> row
      | Some room \<Rightarrow>
          if currentTurn room \<noteq> Some currentUserId then row
          else
            let isPlayerA = (currentUserId = playerAId room);
                currentIndex = (if isPlayerA then playerAIndex room else playerBIndex room);
                totalWords =
                  (if isPlayerA then int (length (playerAWords room))
                   else int (length (playerBWords room)));
                newIndex = currentIndex + 1;
                turnElapsed = (case turnStartTime room of Some t \<Rightarrow> clockNow - t | None \<Rightarrow> 0);
                newTime = (if isPlayerA then playerATime room + turnElapsed
                           else playerBTime room + turnElapsed)
            in if correct then
                 (let newRightCount =
                        (if isPlayerA then playerBRightCount room + 1 else playerARightCount room + 1)
                  in if newIndex \<ge> totalWords then
                       finishGame roomState isPlayerA clockTurn
                         (updateVersusRoom
                            (if isPlayerA
                             then noUpdates\<lparr>u_playerAIndex := Some newIndex,
                                            u_playerBRightCount := Some newRightCount,
                                            u_playerATime := Some newTime\<rparr>
                             else noUpdates\<lparr>u_playerBIndex := Some newIndex,
                                            u_playerARightCount := Some newRightCount,
                                            u_playerBTime := Some newTime\<rparr>) row)
                     else
                       updateVersusRoom
                         (if isPlayerA
                          then noUpdates\<lparr>u_playerAIndex := Some newIndex,
                                         u_playerBRightCount := Some newRightCount\<rparr>
                          else noUpdates\<lparr>u_playerBIndex := Some newIndex,
                                         u_playerARightCount := Some newRightCount\<rparr>) row)
               else
                 (let newWrongCount =
                        (if isPlayerA then playerBWrongCount room + 1 else playerAWrongCount room + 1);
                      nextTurn = (if isPlayerA then playerBId room else Some (playerAId room));
                      counts =
                        (if isPlayerA
                         then noUpdates\<lparr>u_playerAIndex := Some newIndex,
                                        u_playerBWrongCount := Some newWrongCount,
                                        u_playerATime := Some newTime\<rparr>
                         else noUpdates\<lparr>u_playerBIndex := Some newIndex,
                                        u_playerAWrongCount := Some newWrongCount,
                                        u_playerBTime := Some newTime\<rparr>)
                  in if newIndex \<ge> totalWords then
                       finishGame roomState isPlayerA clockTurn (updateVersusRoom counts row)
                     else
                       updateVersusRoom
                         (counts\<lparr>u_currentTurn := Some nextTurn,
                                 u_turnStartTime := Some (Some clockTurn)\<rparr>) row))"

text \<open>
  A game as the two clients play it: before each answer the realtime subscription has
  delivered the stored row, so the component state equals the row when the answer is given.
  Each answer names the answering user, the outcome and the two clock readings.
\<close>

fun versusAnswers :: "VersusRoom \<Rightarrow> (string \<times> bool \<times> int \<times> int) list \<Rightarrow> VersusRoom" where
  "versusAnswers row [] = row"
| "versusAnswers row ((user, correct, clockNow, clockTurn) # rest) =
     versusAnswers (handleAnswer (Some row) user correct clockNow clockTurn row) rest"

definition sampleVersusWords :: "VersusWord list" where
  "sampleVersusWords =
     [\<lparr>vw_id = ''w1'', vw_word = ''ubiquitous'', vw_hint = ''everywhere'',
       vw_definition = ''present everywhere''\<rparr>,
      \<lparr>vw_id = ''w2'', vw_word = ''ephemeral'', vw_hint = ''brief'',
       vw_definition = ''lasting a short time''\<rparr>]"

definition sampleVersusRoom :: VersusRoom where
  "sampleVersusRoom =
     \<lparr>vr_id = ''room-1'', playerAId = ''alice'', playerBId = Some ''bob'',
      vr_status = VersusActive, currentTurn = Some ''alice'',
      playerAWords = sampleVersusWords, playerBWords = sampleVersusWords,
      playerAIndex = 0, playerBIndex = 0, playerAWrongCount = 0, playerBWrongCount = 0,
      playerARightCount = 0, playerBRightCount = 0, playerATime = 0, playerBTime = 0,
      turnStartTime = Some 1000, winnerId = None\<rparr>"

definition otherSideFinished :: "VersusRoom \<Rightarrow> bool \<Rightarrow> bool" where
  "otherSideFinished room playerAFinished =
     (if playerAFinished then playerBIndex room \<ge> int (length (playerBWords room))
      else playerAIndex room \<ge> int (length (playerAWords room)))"


section \<open>Word selection and question generation\<close>

text \<open>
  \<^verbatim>\<open>reverse-word-selection.ts\<close>. Strings are lists of characters; \<^verbatim>\<open>toLowerCase\<close> is modelled on
  the letters A to Z. Exceptions are values: a thrown \<^verbatim>\<open>Error\<close> and the \<^verbatim>\<open>TypeError\<close> that
  JavaScript raises when a method is called on \<^verbatim>\<open>undefined\<close>.

  \<^verbatim>\<open>Math.random()\<close> is a parameter: \<open>rand k\<close> is the number drawn for the candidate at
  position \<open>k\<close>. The shuffle \<^verbatim>\<open>sort(() => Math.random() - 0.5)\<close> yields a permutation that
  depends on the engine and on the numbers drawn; it is modelled by \<open>shuffleBy picks\<close>, which
  builds a permutation from a list of picks.
\<close>

datatype Exn =
    TypeError
  | NotEnoughWords
  | RoomNotFound
  | NoActiveQuestion

record WordOption =
  wo_id :: string
  wo_word :: string

record Question =
  q_wordId :: string
  q_word :: string
  q_definition :: string
  q_options :: "WordOption list"

record ReverseWord =
  rw_id :: string
  rw_word :: string
  rw_hint :: string
  rw_definition :: string

definition toLowerCaseChar :: "char \<Rightarrow> char" where
  "toLowerCaseChar c =
     (case map_of (zip ''ABCDEFGHIJKLMNOPQRSTUVWXYZ'' ''abcdefghijklmnopqrstuvwxyz'') c of
        Some d \<Rightarrow> d
      | None \<Rightarrow> c)"

definition toLowerCase :: "string \<Rightarrow> string" where
  "toLowerCase s = map toLowerCaseChar s"

text \<open>\<^verbatim>\<open>s.includes(sub)\<close>: \<open>sub\<close> occurs in \<open>s\<close> at some offset.\<close>

definition includesStr :: "string \<Rightarrow> string \<Rightarrow> bool" where
  "includesStr s sub = list_ex (\<lambda>i. take (length sub) (drop i s) = sub) [0..<Suc (length s)]"

text \<open>
  \<^verbatim>\<open>scoreWord\<close>. Reading \<^verbatim>\<open>candidate[0]\<close> or \<^verbatim>\<open>correct[0]\<close> of an empty string gives
  \<^verbatim>\<open>undefined\<close>, and calling \<^verbatim>\<open>toLowerCase\<close> on it raises a \<^verbatim>\<open>TypeError\<close>.
\<close>

definition scoreWord :: "string \<Rightarrow> string \<Rightarrow> real \<Rightarrow> Exn + real" where
  "scoreWord candidate correct r =
     (let lengthDiff = \<bar>int (length candidate) - int (length correct)\<bar>;
          s1 = (if lengthDiff \<le> 2 then 3 else 0)
      in case candidate of
           [] \<Rightarrow> Inl TypeError
         | c0 # _ \<Rightarrow>
             (case correct of
                [] \<Rightarrow> Inl TypeError
              | k0 # _ \<Rightarrow>
                  let s2 = s1 + (if toLowerCaseChar c0 = toLowerCaseChar k0 then 2 else 0);
                      s3 = s2 + real (length (filter
                              (\<lambda>i. includesStr (toLowerCase candidate)
                                      (toLowerCase (take 3 (drop i correct))))
                              [0..<length correct - 2]));
                      s4 = (if length candidate \<le> 3 then s3 - 1 else s3)
                  in Inr (s4 + r * 2)))"

text \<open>\<^verbatim>\<open>candidateWords.map(...)\<close> with a callback that may throw: the first exception ends the map.\<close>

fun mapThrowing :: "('a \<Rightarrow> Exn + 'b) \<Rightarrow> 'a list \<Rightarrow> Exn + 'b list" where
  "mapThrowing f [] = Inr []"
| "mapThrowing f (x # xs) =
     (case f x of
        Inl e \<Rightarrow> Inl e
      | Inr y \<Rightarrow> (case mapThrowing f xs of Inl e \<Rightarrow> Inl e | Inr ys \<Rightarrow> Inr (y # ys)))"

definition generateWrongAnswers ::
  "WordOption \<Rightarrow> WordOption list \<Rightarrow> nat \<Rightarrow> (nat \<Rightarrow> real) \<Rightarrow> Exn + WordOption list" where
  "generateWrongAnswers correctWord allWords count rand =
     (let candidateWords = filter (\<lambda>w. wo_id w \<noteq> wo_id correctWord) allWords
      in if length candidateWords < count then Inl NotEnoughWords
         else
           case mapThrowing
                  (\<lambda>(k, w). case scoreWord (wo_word w) (wo_word correctWord) (rand k) of
                               Inl e \<Rightarrow> Inl e
                             | Inr sc \<Rightarrow> Inr (w, sc))
                  (enumerate 0 candidateWords) of
             Inl e \<Rightarrow> Inl e
           | Inr scoredCandidates \<Rightarrow>
               Inr (map (\<lambda>(w, sc). \<lparr>wo_id = wo_id w, wo_word = wo_word w\<rparr>)
                      (take count (sort_key (\<lambda>(w, sc). - sc) scoredCandidates))))"

fun shuffleBy :: "nat list \<Rightarrow> 'a list \<Rightarrow> 'a list" where
  "shuffleBy picks [] = []"
| "shuffleBy [] (x # xs) = x # xs"
| "shuffleBy (p # picks) (x # xs) =
     (let i = p mod length (x # xs)
      in (x # xs) ! i # shuffleBy picks (take i (x # xs) @ drop (Suc i) (x # xs)))"

text \<open>
  \<^verbatim>\<open>generateQuestion\<close>. The caller passes \<^verbatim>\<open>room.gameWords[nextIndex]\<close>, which is
  \<^verbatim>\<open>undefined\<close> beyond the end of the list; then the filter callback of
  \<^verbatim>\<open>generateWrongAnswers\<close> raises on \<^verbatim>\<open>correctWord.id\<close> as soon as there is a word to test.
\<close>

definition generateQuestion ::
  "ReverseWord option \<Rightarrow> WordOption list \<Rightarrow> (nat \<Rightarrow> real) \<Rightarrow> nat list \<Rightarrow> Exn + Question" where
  "generateQuestion correctWord allWords rand picks =
     (case correctWord of
        None \<Rightarrow> (if allWords = [] then Inl NotEnoughWords else Inl TypeError)
      | Some cw \<Rightarrow>
          (case generateWrongAnswers \<lparr>wo_id = rw_id cw, wo_word = rw_word cw\<rparr> allWords 2 rand of
             Inl e \<Rightarrow> Inl e
           | Inr wrongAnswers \<Rightarrow>
               Inr \<lparr>q_wordId = rw_id cw,
                    q_word = rw_word cw,
                    q_definition = rw_definition cw,
                    q_options =
                      shuffleBy picks (\<lparr>wo_id = rw_id cw, wo_word = rw_word cw\<rparr> # wrongAnswers)\<rparr>))"

definition selectRandomWords :: "'a list \<Rightarrow> nat \<Rightarrow> nat list \<Rightarrow> Exn + 'a list" where
  "selectRandomWords words count picks =
     (if length words < count then Inl NotEnoughWords
      else Inr (take count (shuffleBy picks words)))"

section \<open>Reverse mode\<close>

text \<open>
  The three tables of the reverse mode (\<^verbatim>\<open>vocab_reverse_rooms\<close>, \<^verbatim>\<open>vocab_reverse_players\<close>,
  \<^verbatim>\<open>vocab_reverse_answers\<close>) with the columns the operations of \<^verbatim>\<open>reverse-operations.ts\<close> read
  or write; the optional image address of a word is left out. Instants are milliseconds since
  the epoch. The errors \<open>RoomNotFound\<close> and \<open>NoActiveQuestion\<close> stand for the two
  \<^verbatim>\<open>Error\<close>s these operations throw themselves. A request to the store that fails for
  reasons outside the data (the network, a missing function) is not modelled; the uniqueness
  constraint of the answers table is.
\<close>

datatype ReverseRoomStatus =
  ReverseWaiting | ReverseActive | ReverseQuestion | ReverseResults | ReverseFinished

record ReverseRoomRow =
  rr_id :: string
  rr_hostId :: string
  rr_status :: ReverseRoomStatus
  totalQuestions :: int
  currentQuestionIndex :: int
  currentQuestion :: "Question option"
  gameWords :: "ReverseWord list"
  questionStartTime :: "int option"
  questionDurationMs :: int

record ReversePlayerRow =
  rp_roomId :: string
  rp_userId :: string
  joinOrder :: int
  totalScore :: int

record ReverseAnswerRow =
  ra_roomId :: string
  ra_questionIndex :: int
  ra_userId :: string
  selectedWordId :: string
  isCorrect :: bool
  wasOnlyCorrect :: bool
  pointsEarned :: int
  answerTimeMs :: int

record ReverseStore =
  rooms :: "ReverseRoomRow list"
  players :: "ReversePlayerRow list"
  answers :: "ReverseAnswerRow list"

text \<open>\<^verbatim>\<open>getReverseRoom\<close>: the room row and its players in join order, or \<^verbatim>\<open>null\<close>.\<close>

definition getReverseRoom ::
  "ReverseStore \<Rightarrow> string \<Rightarrow> (ReverseRoomRow \<times> ReversePlayerRow list) option" where
  "getReverseRoom store roomId =
     (case find (\<lambda>r. rr_id r = roomId) (rooms store) of
        None \<Rightarrow> None
      | Some r \<Rightarrow>
          Some (r, sort_key joinOrder (filter (\<lambda>p. rp_roomId p = roomId) (players store))))"

record ReverseUpdates =
  ru_status :: "ReverseRoomStatus option"
  ru_currentQuestionIndex :: "int option"
  ru_currentQuestion :: "Question option option"
  ru_questionStartTime :: "int option option"

definition noReverseUpdates :: ReverseUpdates where
  "noReverseUpdates =
     \<lparr>ru_status = None, ru_currentQuestionIndex = None, ru_currentQuestion = None,
      ru_questionStartTime = None\<rparr>"

definition updateReverseRoom :: "ReverseStore \<Rightarrow> string \<Rightarrow> ReverseUpdates \<Rightarrow> ReverseStore" where
  "updateReverseRoom store roomId updates =
     store\<lparr>rooms :=
       map (\<lambda>r. if rr_id r = roomId
                 then r\<lparr>rr_status := (case ru_status updates of None \<Rightarrow> rr_status r | Some v \<Rightarrow> v),
                        currentQuestionIndex :=
                          (case ru_currentQuestionIndex updates of
                             None \<Rightarrow> currentQuestionIndex r | Some v \<Rightarrow> v),
                        currentQuestion :=
                          (case ru_currentQuestion updates of
                             None \<Rightarrow> currentQuestion r | Some v \<Rightarrow> v),
                        questionStartTime :=
                          (case ru_questionStartTime updates of
                             None \<Rightarrow> questionStartTime r | Some v \<Rightarrow> v)\<rparr>
                 else r) (rooms store)\<rparr>"

definition startReverseGame :: "ReverseStore \<Rightarrow> string \<Rightarrow> ReverseWord list \<Rightarrow> ReverseStore" where
  "startReverseGame store roomId gWords =
     store\<lparr>rooms :=
       map (\<lambda>r. if rr_id r = roomId
                 then r\<lparr>rr_status := ReverseActive, gameWords := gWords, currentQuestionIndex := 0\<rparr>
                 else r) (rooms store)\<rparr>"

definition finalizeGame :: "ReverseStore \<Rightarrow> string \<Rightarrow> ReverseStore" where
  "finalizeGame store roomId =
     updateReverseRoom store roomId (noReverseUpdates\<lparr>ru_status := Some ReverseFinished\<rparr>)"

text \<open>\<^verbatim>\<open>xs[i]\<close> for a number \<open>i\<close>: \<^verbatim>\<open>undefined\<close> outside the list.\<close>

definition nthOpt :: "'a list \<Rightarrow> int \<Rightarrow> 'a option" where
  "nthOpt xs i = (if 0 \<le> i \<and> i < int (length xs) then Some (xs ! nat i) else None)"

text \<open>
  \<^verbatim>\<open>advanceToNextQuestion\<close>; \<open>clock\<close> is the reading that becomes \<^verbatim>\<open>questionStartTime\<close>.
\<close>

definition advanceToNextQuestion ::
  "ReverseStore \<Rightarrow> string \<Rightarrow> WordOption list \<Rightarrow> (nat \<Rightarrow> real) \<Rightarrow> nat list \<Rightarrow> int
     \<Rightarrow> (Exn + unit) \<times> ReverseStore" where
  "advanceToNextQuestion store roomId allWords rand picks clock =
     (case getReverseRoom store roomId of
        None \<Rightarrow> (Inl RoomNotFound, store)
      | Some (room, ps) \<Rightarrow>
          let nextIndex = currentQuestionIndex room + 1
          in if nextIndex \<ge> totalQuestions room then (Inr (), finalizeGame store roomId)
             else
               let nextWord = nthOpt (gameWords room) nextIndex
               in case generateQuestion nextWord allWords rand picks of
                    Inl e \<Rightarrow> (Inl e, store)
                  | Inr question \<Rightarrow>
                      (Inr (),
                       updateReverseRoom store roomId
                         \<lparr>ru_status = Some ReverseQuestion,
                          ru_currentQuestionIndex = Some nextIndex,
                          ru_currentQuestion = Some (Some question),
                          ru_questionStartTime = Some (Some clock)\<rparr>))"

text \<open>
  The insert into \<^verbatim>\<open>vocab_reverse_answers\<close>. The table declares
  \<^verbatim>\<open>UNIQUE(room_id, question_index, user_id)\<close>; an insert that would break it is refused with
  error code 23505 (\<open>None\<close> here).
\<close>

definition sameAnswerKey :: "string \<Rightarrow> int \<Rightarrow> string \<Rightarrow> ReverseAnswerRow \<Rightarrow> bool" where
  "sameAnswerKey roomId questionIndex userId a =
     (ra_roomId a = roomId \<and> ra_questionIndex a = questionIndex \<and> ra_userId a = userId)"

definition insertAnswer :: "ReverseStore \<Rightarrow> ReverseAnswerRow \<Rightarrow> ReverseStore option" where
  "insertAnswer store a =
     (if list_ex (sameAnswerKey (ra_roomId a) (ra_questionIndex a) (ra_userId a)) (answers store)
      then None
      else Some (store\<lparr>answers := answers store @ [a]\<rparr>))"

text \<open>The database function \<^verbatim>\<open>increment_reverse_score\<close>.\<close>

definition increment_reverse_score :: "ReverseStore \<Rightarrow> string \<Rightarrow> string \<Rightarrow> int \<Rightarrow> ReverseStore" where
  "increment_reverse_score store roomId userId points =
     store\<lparr>players :=
       map (\<lambda>p. if rp_roomId p = roomId \<and> rp_userId p = userId
                 then p\<lparr>totalScore := totalScore p + points\<rparr> else p) (players store)\<rparr>"

definition submitAnswer ::
  "ReverseStore \<Rightarrow> string \<Rightarrow> int \<Rightarrow> string \<Rightarrow> string \<Rightarrow> int \<Rightarrow> (Exn + unit) \<times> ReverseStore" where
  "submitAnswer store roomId questionIndex userId selected answerTime =
     (case getReverseRoom store roomId of
        None \<Rightarrow> (Inl NoActiveQuestion, store)
      | Some (room, ps) \<Rightarrow>
          (case currentQuestion room of
             None \<Rightarrow> (Inl NoActiveQuestion, store)
           | Some question \<Rightarrow>
               let correct = (selected = q_wordId question);
                   points = (if correct then 1 else 0)
               in case insertAnswer store
                         \<lparr>ra_roomId = roomId, ra_questionIndex = questionIndex, ra_userId = userId,
                          selectedWordId = selected, isCorrect = correct, wasOnlyCorrect = False,
                          pointsEarned = points, answerTimeMs = answerTime\<rparr> of
                    None \<Rightarrow> (Inr (), store)
                  | Some store1 \<Rightarrow>
                      if correct then (Inr (), increment_reverse_score store1 roomId userId 1)
                      else (Inr (), store1)))"

definition checkAllAnswersAndCalculateBonus ::
  "ReverseStore \<Rightarrow> string \<Rightarrow> int \<Rightarrow> bool \<times> ReverseStore" where
  "checkAllAnswersAndCalculateBonus store roomId questionIndex =
     (case getReverseRoom store roomId of
        None \<Rightarrow> (False, store)
      | Some (room, ps) \<Rightarrow>
          let found = filter (\<lambda>a. ra_roomId a = roomId \<and> ra_questionIndex a = questionIndex)
                        (answers store)
          in if length found < length ps then (False, store)
             else
               let correctAnswers = filter isCorrect found;
                   store1 =
                     (case correctAnswers of
                        [only] \<Rightarrow>
                          (let bonusUserId = ra_userId only;
                               marked = store\<lparr>answers :=
                                 map (\<lambda>a. if sameAnswerKey roomId questionIndex bonusUserId a
                                           then a\<lparr>wasOnlyCorrect := True, pointsEarned := 2\<rparr>
                                           else a) (answers store)\<rparr>
                           in increment_reverse_score marked roomId bonusUserId 1)
                      | _ \<Rightarrow> store)
               in (True, updateReverseRoom store1 roomId
                           (noReverseUpdates\<lparr>ru_status := Some ReverseResults\<rparr>)))"

text \<open>
  \<^verbatim>\<open>handleStartGame\<close> of the reverse-mode component. \<open>roomState\<close> is the component's \<^verbatim>\<open>room\<close>,
  \<open>allWords\<close> what \<^verbatim>\<open>getAllWordsWithProgress\<close> returned. The result pairs the error shown to
  the host, if any, with the store.
\<close>

datatype StartError = NeedThirteenWords | StartFailed Exn

definition handleStartGame ::
  "ReverseRoomRow option \<Rightarrow> string \<Rightarrow> WordItem list \<Rightarrow> nat list \<Rightarrow> (nat \<Rightarrow> real) \<Rightarrow> nat list
     \<Rightarrow> int \<Rightarrow> ReverseStore \<Rightarrow> StartError option \<times> ReverseStore" where
  "handleStartGame roomState currentUserId allWords selectPicks rand picks clock store =
     (case roomState of
        None \<Rightarrow> (None, store)
      | Some room \<Rightarrow>
          if rr_hostId room \<noteq> currentUserId then (None, store)
          else if length allWords < 13 then (Some NeedThirteenWords, store)
          else
            case selectRandomWords allWords 10 selectPicks of
              Inl e \<Rightarrow> (Some (StartFailed e), store)
            | Inr selectedWords \<Rightarrow>
                let gWords = map (\<lambda>w. \<lparr>rw_id = w_id w, rw_word = w_word w, rw_hint = w_hint w,
                                         rw_definition = w_definition w\<rparr>)
                               selectedWords;
                    store1 = startReverseGame store (rr_id room) gWords
                in case advanceToNextQuestion store1 (rr_id room)
                          (map (\<lambda>w. \<lparr>wo_id = w_id w, wo_word = w_word w\<rparr>) allWords)
                          rand picks clock of
                     (Inl e, store2) \<Rightarrow> (Some (StartFailed e), store2)
                   | (Inr u, store2) \<Rightarrow> (None, store2))"

subsection \<open>Store invariant, projections and sample data\<close>

definition uniqueAnswers :: "ReverseStore \<Rightarrow> bool" where
  "uniqueAnswers store =
     distinct (map (\<lambda>a. (ra_roomId a, ra_questionIndex a, ra_userId a)) (answers store))"

definition sampleQuestion :: Question where
  "sampleQuestion =
     \<lparr>q_wordId = ''w1'', q_word = ''apple'', q_definition = ''a round fruit'',
      q_options = [\<lparr>wo_id = ''w2'', wo_word = ''ample''\<rparr>, \<lparr>wo_id = ''w1'', wo_word = ''apple''\<rparr>,
                   \<lparr>wo_id = ''w3'', wo_word = ''maple''\<rparr>]\<rparr>"

definition sampleReverseStore :: ReverseStore where
  "sampleReverseStore =
     \<lparr>rooms = [\<lparr>rr_id = ''r1'', rr_hostId = ''alice'', rr_status = ReverseQuestion,
                 totalQuestions = 10, currentQuestionIndex = 1,
                 currentQuestion = Some sampleQuestion, gameWords = [],
                 questionStartTime = Some 1000, questionDurationMs = 15000\<rparr>],
      players = [\<lparr>rp_roomId = ''r1'', rp_userId = ''alice'', joinOrder = 1, totalScore = 0\<rparr>,
                 \<lparr>rp_roomId = ''r1'', rp_userId = ''bob'', joinOrder = 2, totalScore = 0\<rparr>],
      answers = []\<rparr>"

definition scoreOf :: "ReverseStore \<Rightarrow> string \<Rightarrow> string \<Rightarrow> int list" where
  "scoreOf store roomId userId =
     map totalScore (filter (\<lambda>p. rp_roomId p = roomId \<and> rp_userId p = userId) (players store))"

definition answersOf :: "ReverseStore \<Rightarrow> string \<Rightarrow> int \<Rightarrow> string \<Rightarrow> ReverseAnswerRow list" where
  "answersOf store roomId questionIndex userId =
     filter (sameAnswerKey roomId questionIndex userId) (answers store)"

definition sampleOneAnswered :: ReverseStore where
  "sampleOneAnswered = snd (submitAnswer sampleReverseStore ''r1'' 1 ''alice'' ''w1'' 500)"

definition sampleAllAnswered :: ReverseStore where
  "sampleAllAnswered = snd (submitAnswer sampleOneAnswered ''r1'' 1 ''bob'' ''w2'' 700)"

definition sampleItem :: "string \<Rightarrow> string \<Rightarrow> WordItem" where
  "sampleItem i t = (sampleWord 1 0)\<lparr>w_id := i, w_word := t\<rparr>"

definition samplePool :: "WordItem list" where
  "samplePool =
     [sampleItem ''w0'' ''ant'', sampleItem ''w1'' ''bee'', sampleItem ''w2'' ''cat'',
      sampleItem ''w3'' ''dog'', sampleItem ''w4'' ''eel'', sampleItem ''w5'' ''fox'',
      sampleItem ''w6'' ''gnu'', sampleItem ''w7'' ''hen'', sampleItem ''w8'' ''jay'',
      sampleItem ''w9'' ''koi'', sampleItem ''w10'' ''owl'', sampleItem ''w11'' ''pig'',
      sampleItem ''w12'' ''yak'']"

definition sampleLobby :: ReverseStore where
  "sampleLobby =
     \<lparr>rooms = [\<lparr>rr_id = ''r1'', rr_hostId = ''alice'', rr_status = ReverseWaiting,
                 totalQuestions = 10, currentQuestionIndex = 0,
                 currentQuestion = None, gameWords = [],
                 questionStartTime = None, questionDurationMs = 15000\<rparr>],
      players = [\<lparr>rp_roomId = ''r1'', rp_userId = ''alice'', joinOrder = 1, totalScore = 0\<rparr>,
                 \<lparr>rp_roomId = ''r1'', rp_userId = ''bob'', joinOrder = 2, totalScore = 0\<rparr>],
      answers = []\<rparr>"

definition sampleGameWords :: "ReverseWord list" where
  "sampleGameWords =
     map (\<lambda>(i, t). \<lparr>rw_id = i, rw_word = t, rw_hint = ''everywhere'',
                     rw_definition = ''present everywhere''\<rparr>)
       [(''w0'', ''ant''), (''w1'', ''bee''), (''w2'', ''cat''), (''w3'', ''dog''), (''w4'', ''eel''),
        (''w5'', ''fox''), (''w6'', ''gnu''), (''w7'', ''hen''), (''w8'', ''jay''), (''w9'', ''koi'')]"

section \<open>Properties of the scheduler\<close>

subsection \<open>Auxiliary facts\<close>

lemma lookupLevel_found:
  "find (\<lambda>x. level_id x = lid) (levels c) = Some l \<Longrightarrow> lookupLevel c lid = Some l"
  by (simp add: lookupLevel_def)

lemma find_level_in:
  "find (\<lambda>x. level_id x = lid) (levels c) = Some l \<Longrightarrow> l \<in> set (levels c) \<and> level_id l = lid"
  by (auto simp: find_Some_iff)

lemma find_level_exists:
  "lid \<in> level_id ` set (levels c) \<Longrightarrow> \<exists>l. find (\<lambda>x. level_id x = lid) (levels c) = Some l"
  by (cases "find (\<lambda>x. level_id x = lid) (levels c)") (auto simp: find_None_iff)

lemma find_gt_sorted:
  "sorted xs \<Longrightarrow> \<exists>y \<in> set xs. c < y \<Longrightarrow>
   find (\<lambda>i. c < i) xs = Some (Min {y \<in> set xs. c < (y::int)})"
proof (induction xs)
  case Nil then show ?case by simp
next
  case (Cons x xs)
  show ?case
  proof (cases "c < x")
    case True
    have "Min {y \<in> set (x # xs). c < y} = x"
    proof (rule Min_eqI)
      show "finite {y \<in> set (x # xs). c < y}" by simp
      show "x \<in> {y \<in> set (x # xs). c < y}" using True by simp
      fix y assume "y \<in> {y \<in> set (x # xs). c < y}"
      then show "x \<le> y" using Cons.prems(1) by auto
    qed
    then show ?thesis using True by simp
  next
    case False
    then have eq: "{y \<in> set (x # xs). c < y} = {y \<in> set xs. c < y}" by auto
    have "\<exists>y \<in> set xs. c < y" using Cons.prems(2) False by auto
    then show ?thesis using Cons.IH Cons.prems(1) False eq by simp
  qed
qed

lemma nextHigherLevelId_Min:
  assumes "\<exists>l \<in> set (levels c). current < level_id l"
  shows "nextHigherLevelId current c = Min {i \<in> set (map level_id (levels c)). current < i}"
proof -
  have "\<exists>y \<in> set (sort (map level_id (levels c))). current < y" using assms by auto
  from find_gt_sorted[OF sorted_sort this]
  show ?thesis by (simp add: nextHigherLevelId_def)
qed

lemma nextHigherLevelId_in:
  assumes "\<exists>l \<in> set (levels c). current < level_id l"
  shows "nextHigherLevelId current c \<in> level_id ` set (levels c) \<and> current < nextHigherLevelId current c"
proof -
  let ?S = "{i \<in> set (map level_id (levels c)). current < i}"
  have "finite ?S" by simp
  moreover have "?S \<noteq> {}" using assms by auto
  ultimately have "Min ?S \<in> ?S" by (rule Min_in)
  then show ?thesis using nextHigherLevelId_Min[OF assms] by auto
qed

lemma maxLevel_ge: "l \<in> set (levels c) \<Longrightarrow> level_id l \<le> maxLevel c"
  by (auto simp: maxLevel_def)

lemma below_max_ex:
  assumes "i < maxLevel c" "l \<in> set (levels c)"
  shows "\<exists>l \<in> set (levels c). i < level_id l"
proof -
  have ne: "map level_id (levels c) \<noteq> []" using assms(2) by auto
  then have "Max (set (map level_id (levels c))) \<in> set (map level_id (levels c))"
    by (intro Max_in) auto
  then obtain l' where "l' \<in> set (levels c)" "level_id l' = Max (set (map level_id (levels c)))"
    by auto
  moreover have "i < Max (set (map level_id (levels c)))"
    using assms(1) ne by (simp add: maxLevel_def)
  ultimately show ?thesis by metis
qed

text \<open>
  Inside its bounds the clamp is the identity: for a level with a threshold in 1..99 and an
  interval in 0..3650 days the configured numbers are the ones used.
\<close>

lemma clampInt_id: "mn \<le> n \<Longrightarrow> n \<le> mx \<Longrightarrow> clampInt n mn mx = n"
  by (simp add: clampInt_def)

lemma maxLevel_default: "maxLevel defaultConfig = 3"
  by (simp add: maxLevel_def defaultConfig_def)

subsection \<open>Right answers\<close>

text \<open>
  \<^verbatim>\<open>applyAnswer\<close> does not use the interval and the threshold of a level as they are
  configured: it clamps the interval into 0..3650 days and the threshold into 1..99 first.
  With a first level of threshold 150 and interval 5000 days, a word at streak 98 is promoted
  by its next clean right answer, although the incremented streak 99 is below 150, and a word
  that stays on that level is due 3650 days after today, not 5000.
\<close>

theorem applyAnswer_right_clean_counterexample:
  "streakCorrect (sampleWord 1 98) + 1 < promoteAfterCorrect (hd (levels wideConfig)) \<and>
   levelId (applyAnswer (sampleWord 1 98) True wideConfig (Some True) sampleNow sampleNow) = 2 \<and>
   levelId (applyAnswer (sampleWord 1 0) True wideConfig (Some True) sampleNow sampleNow) = 1 \<and>
   intervalDays (hd (levels wideConfig)) = 5000 \<and>
   dueAt (applyAnswer (sampleWord 1 0) True wideConfig (Some True) sampleNow sampleNow)
     = toISO (addDays (todayStartLocal sampleNow) 3650) \<and>
   dueAt (applyAnswer (sampleWord 1 0) True wideConfig (Some True) sampleNow sampleNow)
     \<noteq> toISO (addDays (todayStartLocal sampleNow) (intervalDays (hd (levels wideConfig))))"
  by (simp add: applyAnswer_def Let_def lookupLevel_def maxLevel_def nextHigherLevelId_def
        clampInt_def toISO_def addDays_def todayStartLocal_def wideConfig_def sampleWord_def
        sampleNow_def)

text \<open>
  C1, as the code has it. Let \<open>l\<close> be the configured level of the word (the first level with
  the word's \<^verbatim>\<open>levelId\<close>). A right answer on a clean run adds one to \<^verbatim>\<open>totalRight\<close>. The
  word is promoted exactly when the incremented streak reaches \<open>promoteAfterCorrect l\<close>
  clamped into 1..99 and the word's level is not the maximum level. When promoted, the new
  level id is the smallest configured id above the current one, the streak is reset to 0 and
  \<^verbatim>\<open>dueAt\<close> is the start of the local day plus the interval of the new level clamped into
  0..3650. Otherwise the level is kept, the streak grows by one and \<^verbatim>\<open>dueAt\<close> is the start
  of the local day plus \<open>intervalDays l\<close> clamped into 0..3650. This holds for every
  configuration.
\<close>

theorem applyAnswer_right_clean_clamped:
  assumes lvl: "find (\<lambda>x. level_id x = levelId word) (levels config) = Some l"
    and clean: "icr \<noteq> Some False"
  shows "let w' = applyAnswer word True config icr now clock2;
             base = todayStartLocal clock2;
             promote = (clampInt (promoteAfterCorrect l) 1 99 \<le> streakCorrect word + 1 \<and>
                        levelId word \<noteq> maxLevel config)
         in totalRight w' = totalRight word + 1 \<and>
            (promote \<longrightarrow>
               levelId w' = Min {i \<in> set (map level_id (levels config)). levelId word < i} \<and>
               streakCorrect w' = 0 \<and>
               (\<exists>l'. find (\<lambda>x. level_id x = levelId w') (levels config) = Some l' \<and>
                     dueAt w' = toISO (addDays base (clampInt (intervalDays l') 0 3650)))) \<and>
            (\<not> promote \<longrightarrow>
               levelId w' = levelId word \<and>
               streakCorrect w' = streakCorrect word + 1 \<and>
               dueAt w' = toISO (addDays base (clampInt (intervalDays l) 0 3650)))"
proof -
  have lin: "l \<in> set (levels config)" and lid: "level_id l = levelId word"
    using find_level_in[OF lvl] by auto
  have lk: "lookupLevel config (levelId word) = Some l"
    using lookupLevel_found[OF lvl] .
  have cl: "(case icr of None \<Rightarrow> True | Some b \<Rightarrow> b) = True"
    using clean by (cases icr) auto
  have le: "levelId word \<le> maxLevel config" using maxLevel_ge[OF lin] lid by simp
  show ?thesis
  proof (cases "clampInt (promoteAfterCorrect l) 1 99 \<le> streakCorrect word + 1 \<and>
                levelId word \<noteq> maxLevel config")
    case True
    then have lt: "levelId word < maxLevel config" using le by simp
    have ex: "\<exists>l \<in> set (levels config). levelId word < level_id l"
      using below_max_ex[OF lt lin] .
    have "nextHigherLevelId (levelId word) config \<in> level_id ` set (levels config)"
      using nextHigherLevelId_in[OF ex] by simp
    from find_level_exists[OF this] obtain l' where
      f': "find (\<lambda>x. level_id x = nextHigherLevelId (levelId word) config) (levels config) = Some l'"
      by blast
    have "levelId (applyAnswer word True config icr now clock2) = nextHigherLevelId (levelId word) config"
      "streakCorrect (applyAnswer word True config icr now clock2) = 0"
      "dueAt (applyAnswer word True config icr now clock2)
         = toISO (addDays (todayStartLocal clock2) (clampInt (intervalDays l') 0 3650))"
      "totalRight (applyAnswer word True config icr now clock2) = totalRight word + 1"
      using True lt lk cl f'
      by (simp_all add: applyAnswer_def Let_def)
    then show ?thesis
      using True f' nextHigherLevelId_Min[OF ex] by (auto simp: Let_def)
  next
    case False
    then have nopromo: "\<not> (levelId word < maxLevel config \<and>
                             clampInt (promoteAfterCorrect l) 1 99 \<le> streakCorrect word + 1)"
      by auto
    have "levelId (applyAnswer word True config icr now clock2) = levelId word"
      "streakCorrect (applyAnswer word True config icr now clock2) = streakCorrect word + 1"
      "dueAt (applyAnswer word True config icr now clock2)
         = toISO (addDays (todayStartLocal clock2) (clampInt (intervalDays l) 0 3650))"
      "totalRight (applyAnswer word True config icr now clock2) = totalRight word + 1"
      using nopromo lk cl
      by (auto simp add: applyAnswer_def Let_def)
    then show ?thesis using False unfolding Let_def by auto
  qed
qed

theorem applyAnswer_right_clean_clamped_witness:
  "find (\<lambda>x. level_id x = levelId (sampleWord 1 2)) (levels defaultConfig)
     = Some (hd (levels defaultConfig)) \<and>
   Some True \<noteq> Some False \<and>
   totalRight (applyAnswer (sampleWord 1 2) True defaultConfig (Some True) sampleNow sampleNow) = 1 \<and>
   levelId (applyAnswer (sampleWord 1 2) True defaultConfig (Some True) sampleNow sampleNow) = 2 \<and>
   streakCorrect (applyAnswer (sampleWord 1 2) True defaultConfig (Some True) sampleNow sampleNow) = 0 \<and>
   dueAt (applyAnswer (sampleWord 1 2) True defaultConfig (Some True) sampleNow sampleNow)
     = \<lparr>localDay = 107, msOfDay = 0\<rparr>"
proof -
  let ?w' = "applyAnswer (sampleWord 1 2) True defaultConfig (Some True) sampleNow sampleNow"
  have h1: "find (\<lambda>x. level_id x = levelId (sampleWord 1 2)) (levels defaultConfig)
     = Some (hd (levels defaultConfig))"
    by (simp add: defaultConfig_def sampleWord_def)
  have h2: "Some True \<noteq> Some False" by simp
  have S: "{i \<in> set (map level_id (levels defaultConfig)). levelId (sampleWord 1 2) < i} = {2, 3}"
    by (auto simp: defaultConfig_def sampleWord_def)
  have P: "clampInt (promoteAfterCorrect (hd (levels defaultConfig))) 1 99
             \<le> streakCorrect (sampleWord 1 2) + 1 \<and>
           levelId (sampleWord 1 2) \<noteq> maxLevel defaultConfig"
    by (simp add: maxLevel_default) (simp add: defaultConfig_def sampleWord_def clampInt_def)
  note T = applyAnswer_right_clean_clamped[OF h1 h2, of sampleNow sampleNow, unfolded Let_def]
  from T P have
    a: "totalRight ?w' = totalRight (sampleWord 1 2) + 1"
    and b: "levelId ?w' = Min {2, 3}"
    and c: "streakCorrect ?w' = 0"
    and d: "\<exists>l'. find (\<lambda>x. level_id x = levelId ?w') (levels defaultConfig) = Some l' \<and>
              dueAt ?w' = toISO (addDays (todayStartLocal sampleNow) (clampInt (intervalDays l') 0 3650))"
    unfolding S by blast+
  from b have b': "levelId ?w' = 2" by simp
  from d have d': "dueAt ?w' = \<lparr>localDay = 107, msOfDay = 0\<rparr>"
    unfolding b'
    by (auto simp: defaultConfig_def toISO_def addDays_def todayStartLocal_def sampleNow_def
          clampInt_def)
  from a have a': "totalRight ?w' = 1" by (simp add: sampleWord_def)
  show ?thesis using h1 a' b' c d' by simp
qed

text \<open>
  Scenario A: with thresholds 3/2/1 and intervals 1/7/30 days, three clean right answers take
  a word from level 1, streak 0, to level 2, streak 0, due seven days after today.
\<close>

lemma scenario_A:
  "repeatRight (sampleWord 1 0) defaultConfig
     [(Some True, sampleNow, sampleNow), (Some True, sampleNow, sampleNow),
      (Some True, sampleNow, sampleNow)]
   = (sampleWord 2 0)\<lparr>updatedAt := sampleNow, lastReviewedAt := Some sampleNow,
        lastResult := Some ResultRight, totalRight := 3,
        dueAt := \<lparr>localDay = 107, msOfDay = 0\<rparr>\<rparr>"
  by (simp add: applyAnswer_def Let_def lookupLevel_def maxLevel_def nextHigherLevelId_def
        clampInt_def toISO_def addDays_def todayStartLocal_def defaultConfig_def sampleWord_def sampleNow_def)

subsection \<open>The highest level\<close>

lemma applyAnswer_right_at_max:
  assumes lvl: "find (\<lambda>x. level_id x = levelId word) (levels config) = Some l"
    and mx: "levelId word = maxLevel config"
  shows "levelId (applyAnswer word True config icr now clock2) = levelId word \<and>
         dueAt (applyAnswer word True config icr now clock2)
           = toISO (addDays (todayStartLocal clock2) (clampInt (intervalDays l) 0 3650))"
  using lookupLevel_found[OF lvl] mx by (simp add: applyAnswer_def Let_def)

text \<open>
  The level never changes at or above the maximum id, whatever the configuration holds.
\<close>

lemma applyAnswer_right_keeps_top_level:
  "maxLevel config \<le> levelId word \<Longrightarrow>
   levelId (applyAnswer word True config icr now clock2) = levelId word"
  by (simp add: applyAnswer_def Let_def)

text \<open>
  With a top level of interval 4000 days, a right answer on a word of that level keeps the
  level and makes the word due 3650 days after today, not 4000.
\<close>

theorem repeatRight_at_max_counterexample:
  "levelId (sampleWord 2 0) = maxLevel wideConfig \<and>
   intervalDays (last (levels wideConfig)) = 4000 \<and>
   levelId (repeatRight (sampleWord 2 0) wideConfig [(Some True, sampleNow, sampleNow)]) = 2 \<and>
   dueAt (repeatRight (sampleWord 2 0) wideConfig [(Some True, sampleNow, sampleNow)])
     = toISO (addDays (todayStartLocal sampleNow) 3650) \<and>
   dueAt (repeatRight (sampleWord 2 0) wideConfig [(Some True, sampleNow, sampleNow)])
     \<noteq> toISO (addDays (todayStartLocal sampleNow) (intervalDays (last (levels wideConfig))))"
  by (simp add: applyAnswer_def Let_def lookupLevel_def maxLevel_def nextHigherLevelId_def
        clampInt_def toISO_def addDays_def todayStartLocal_def wideConfig_def sampleWord_def
        sampleNow_def)

text \<open>
  C9, as the code has it. A word whose level is the maximum configured level keeps its
  \<^verbatim>\<open>levelId\<close> under any number of right answers, and after each of them \<^verbatim>\<open>dueAt\<close> is the
  start of the local day of that answer plus the interval of that level clamped into
  0..3650 days. This holds for every configuration.
\<close>

theorem repeatRight_at_max_clamped:
  assumes lvl: "find (\<lambda>x. level_id x = levelId word) (levels config) = Some l"
    and mx: "levelId word = maxLevel config"
  shows "levelId (repeatRight word config obs) = levelId word \<and>
         (obs \<noteq> [] \<longrightarrow>
            dueAt (repeatRight word config obs)
              = toISO (addDays (todayStartLocal (snd (snd (last obs))))
                         (clampInt (intervalDays l) 0 3650)))"
  using lvl mx
proof (induction obs arbitrary: word)
  case Nil
  then show ?case by simp
next
  case (Cons ob rest)
  obtain icr now clock2 where ob: "ob = (icr, now, clock2)" by (cases ob) auto
  let ?w = "applyAnswer word True config icr now clock2"
  have step: "levelId ?w = levelId word"
    "dueAt ?w = toISO (addDays (todayStartLocal clock2) (clampInt (intervalDays l) 0 3650))"
    using applyAnswer_right_at_max[OF Cons.prems] by auto
  have lvl': "find (\<lambda>x. level_id x = levelId ?w) (levels config) = Some l"
    and mx': "levelId ?w = maxLevel config"
    using step(1) Cons.prems by auto
  show ?case
  proof (cases "rest = []")
    case True
    then show ?thesis using step ob by simp
  next
    case False
    then show ?thesis using Cons.IH[OF lvl' mx'] step(1) ob by simp
  qed
qed

theorem repeatRight_at_max_clamped_witness:
  "find (\<lambda>x. level_id x = levelId (sampleWord 3 0)) (levels defaultConfig)
     = Some (last (levels defaultConfig)) \<and>
   levelId (sampleWord 3 0) = maxLevel defaultConfig \<and>
   levelId (repeatRight (sampleWord 3 0) defaultConfig
      [(Some True, sampleNow, sampleNow), (None, addDays sampleNow 40, addDays sampleNow 40)]) = 3 \<and>
   dueAt (repeatRight (sampleWord 3 0) defaultConfig
      [(Some True, sampleNow, sampleNow), (None, addDays sampleNow 40, addDays sampleNow 40)])
     = \<lparr>localDay = 170, msOfDay = 0\<rparr>"
proof -
  have h1: "find (\<lambda>x. level_id x = levelId (sampleWord 3 0)) (levels defaultConfig)
     = Some (last (levels defaultConfig))"
    by (simp add: defaultConfig_def sampleWord_def)
  have h2: "levelId (sampleWord 3 0) = maxLevel defaultConfig"
    by (simp add: maxLevel_default sampleWord_def)
  note T = repeatRight_at_max_clamped[OF h1 h2,
      of "[(Some True, sampleNow, sampleNow), (None, addDays sampleNow 40, addDays sampleNow 40)]"]
  have "clampInt (intervalDays (last (levels defaultConfig))) 0 3650 = 30"
    by (simp add: defaultConfig_def clampInt_def)
  with T h1 h2 show ?thesis
    by (simp add: sampleWord_def toISO_def addDays_def todayStartLocal_def sampleNow_def)
qed

subsection \<open>A level id that is not configured\<close>

text \<open>
  \<^verbatim>\<open>clampToExistingLevel\<close>, which \<^verbatim>\<open>normalizeWord\<close> applies, returns a configured id nearest
  to the given one. \<^verbatim>\<open>applyAnswer\<close> does not call it: its lookup falls back to the first
  configured level.
\<close>

lemma fold_closestStep:
  "snd acc = \<bar>fst acc - lid\<bar> \<Longrightarrow>
   snd (fold (closestStep lid) xs acc) = \<bar>fst (fold (closestStep lid) xs acc) - lid\<bar> \<and>
   (fst (fold (closestStep lid) xs acc) = fst acc \<or> fst (fold (closestStep lid) xs acc) \<in> set xs) \<and>
   snd (fold (closestStep lid) xs acc) \<le> snd acc \<and>
   (\<forall>i \<in> set xs. snd (fold (closestStep lid) xs acc) \<le> \<bar>i - lid\<bar>)"
proof (induction xs arbitrary: acc)
  case Nil then show ?case by simp
next
  case (Cons x xs)
  have a: "snd (closestStep lid x acc) = \<bar>fst (closestStep lid x acc) - lid\<bar>"
    using Cons.prems by (simp add: closestStep_def Let_def)
  have b: "snd (closestStep lid x acc) \<le> snd acc" "snd (closestStep lid x acc) \<le> \<bar>x - lid\<bar>"
    "fst (closestStep lid x acc) = fst acc \<or> fst (closestStep lid x acc) = x"
    by (auto simp: closestStep_def Let_def)
  from Cons.IH[OF a] b show ?case by auto
qed

lemma sorted_le_last: "sorted xs \<Longrightarrow> (x::int) \<in> set xs \<Longrightarrow> x \<le> last xs"
  by (induction xs) auto

lemma clampToExistingLevel_nearest:
  assumes "levels cfg \<noteq> []"
  shows "clampToExistingLevel lid cfg \<in> level_id ` set (levels cfg) \<and>
         (\<forall>l \<in> set (levels cfg). \<bar>clampToExistingLevel lid cfg - lid\<bar> \<le> \<bar>level_id l - lid\<bar>)"
proof (cases "lid \<in> level_id ` set (levels cfg)")
  case True
  then show ?thesis by (simp add: clampToExistingLevel_def)
next
  case False
  define ids where "ids = map level_id (levels cfg)"
  define sorted_ids where "sorted_ids = sort ids"
  have "length sorted_ids = length (levels cfg)" by (simp add: sorted_ids_def ids_def)
  then have ne: "sorted_ids \<noteq> []" using assms by auto
  then obtain first rest where fr: "sorted_ids = first # rest" by (cases sorted_ids) auto
  have srt: "sorted sorted_ids" and st: "set sorted_ids = level_id ` set (levels cfg)"
    by (simp_all add: sorted_ids_def ids_def)
  have mn: "\<forall>i \<in> set sorted_ids. first \<le> i" using srt fr by auto
  have mx: "\<forall>i \<in> set sorted_ids. i \<le> last sorted_ids"
    using srt sorted_le_last by blast
  have lastin: "last sorted_ids \<in> set sorted_ids" using ne by simp
  have firstin: "first \<in> set sorted_ids" using fr by simp
  have unf: "clampToExistingLevel lid cfg =
      (if lid < first then first else if lid > last sorted_ids then last sorted_ids
       else fst (fold (closestStep lid) sorted_ids (first, \<bar>first - lid\<bar>)))"
  proof -
    have "sort (map level_id (levels cfg)) = first # rest"
      using fr by (simp add: sorted_ids_def ids_def)
    then show ?thesis using False
      by (simp add: clampToExistingLevel_def Let_def sorted_ids_def ids_def)
  qed
  consider "lid < first" | "\<not> lid < first" "lid > last sorted_ids"
    | "\<not> lid < first" "\<not> lid > last sorted_ids" by blast
  then show ?thesis
  proof cases
    case 1
    then show ?thesis using unf mn firstin st by fastforce
  next
    case 2
    then show ?thesis using unf mx lastin st by fastforce
  next
    case 3
    let ?r = "fold (closestStep lid) sorted_ids (first, \<bar>first - lid\<bar>)"
    from fold_closestStep[of "(first, \<bar>first - lid\<bar>)" lid sorted_ids]
    have "snd ?r = \<bar>fst ?r - lid\<bar>" "fst ?r = first \<or> fst ?r \<in> set sorted_ids"
      "\<forall>i \<in> set sorted_ids. snd ?r \<le> \<bar>i - lid\<bar>" by auto
    then show ?thesis using unf 3 firstin st by auto
  qed
qed

lemma lookupLevel_absent:
  "lid \<notin> level_id ` set (levels config) \<Longrightarrow>
   lookupLevel config lid = (case levels config of [] \<Rightarrow> None | l0 # _ \<Rightarrow> Some l0)"
proof -
  assume "lid \<notin> level_id ` set (levels config)"
  then have "find (\<lambda>l. level_id l = lid) (levels config) = None"
    by (auto simp: find_None_iff)
  then show ?thesis by (simp add: lookupLevel_def)
qed

text \<open>
  C2. The claim is that \<^verbatim>\<open>applyAnswer\<close>, for a word whose \<^verbatim>\<open>levelId\<close> is not configured,
  schedules with the interval and threshold of the nearest configured level. With levels
  1, 2, 3 (intervals 1, 7, 30 days) and a word at the removed level 4, the nearest level is 3,
  yet \<^verbatim>\<open>applyAnswer\<close> looks up the first level and makes the word due after 1 day, not 30;
  the word also stays at level 4 however long its streak.
\<close>

theorem applyAnswer_missing_level_uses_first_level:
  "levelId (sampleWord 4 0) \<notin> level_id ` set (levels defaultConfig) \<and>
   clampToExistingLevel (levelId (sampleWord 4 0)) defaultConfig = 3 \<and>
   lookupLevel defaultConfig (levelId (sampleWord 4 0)) = Some (hd (levels defaultConfig)) \<and>
   dueAt (applyAnswer (sampleWord 4 0) True defaultConfig (Some True) sampleNow sampleNow)
     = addDays (todayStartLocal sampleNow) 1 \<and>
   dueAt (applyAnswer (sampleWord 4 0) True defaultConfig (Some True) sampleNow sampleNow)
     \<noteq> addDays (todayStartLocal sampleNow) 30 \<and>
   levelId (applyAnswer (sampleWord 4 2) True defaultConfig (Some True) sampleNow sampleNow) = 4"
  by (simp add: applyAnswer_def Let_def lookupLevel_def maxLevel_def nextHigherLevelId_def
        clampToExistingLevel_def closestStep_def
        clampInt_def toISO_def addDays_def todayStartLocal_def defaultConfig_def sampleWord_def sampleNow_def)

subsection \<open>Frame\<close>

text \<open>
  C10. For every word, configuration and outcome (right or wrong, clean run or not),
  \<^verbatim>\<open>applyAnswer\<close> leaves the word's id, text, hint, definition and creation date unchanged, and
  adds exactly 1 to \<^verbatim>\<open>totalRight\<close> on a right answer or to \<^verbatim>\<open>totalWrong\<close> on a wrong answer,
  leaving the other counter as it was.
\<close>

theorem applyAnswer_frame:
  "w_id (applyAnswer word right config icr now clock2) = w_id word \<and>
   w_word (applyAnswer word right config icr now clock2) = w_word word \<and>
   w_hint (applyAnswer word right config icr now clock2) = w_hint word \<and>
   w_definition (applyAnswer word right config icr now clock2) = w_definition word \<and>
   createdAt (applyAnswer word right config icr now clock2) = createdAt word \<and>
   totalRight (applyAnswer word right config icr now clock2)
     = totalRight word + (if right then 1 else 0) \<and>
   totalWrong (applyAnswer word right config icr now clock2)
     = totalWrong word + (if right then 0 else 1)"
  by (simp add: applyAnswer_def Let_def)

section \<open>Properties of versus mode\<close>

text \<open>
  The decision of \<^verbatim>\<open>finishGame\<close> when both sides have exhausted their lists, over the room
  value it reads: the higher right count wins whatever the two cumulative times are, and
  on equal counts player A wins exactly when A's time is the lower one.
\<close>

lemma finishGame_both_finished_rule:
  assumes "otherSideFinished room playerAFinished"
  shows "vr_status (finishGame (Some (room\<lparr>playerATime := tA, playerBTime := tB\<rparr>)) playerAFinished clock row)
           = VersusFinished \<and>
         winnerId (finishGame (Some (room\<lparr>playerATime := tA, playerBTime := tB\<rparr>)) playerAFinished clock row)
           = (if playerARightCount room > playerBRightCount room then Some (playerAId room)
              else if playerBRightCount room > playerARightCount room then playerBId room
              else if tA < tB then Some (playerAId room)
              else playerBId room)"
  using assms
  by (simp add: finishGame_def otherSideFinished_def Let_def updateVersusRoom_def noUpdates_def orKeep_def)

text \<open>
  C7. When the finishing side has a wrong count of 0 and the other side has not exhausted its
  list, \<^verbatim>\<open>finishGame\<close> declares no winner and leaves the status alone: it hands the turn to the
  other side and stamps a fresh turn start time.
\<close>

theorem finishGame_flawless_passes_turn:
  assumes "\<not> otherSideFinished room playerAFinished"
    and "(if playerAFinished then playerAWrongCount room else playerBWrongCount room) = 0"
  shows "vr_status (finishGame (Some room) playerAFinished clock row) = vr_status row \<and>
         winnerId (finishGame (Some room) playerAFinished clock row) = winnerId row \<and>
         currentTurn (finishGame (Some room) playerAFinished clock row)
           = (if playerAFinished then playerBId room else Some (playerAId room)) \<and>
         turnStartTime (finishGame (Some room) playerAFinished clock row) = Some clock"
  using assms
  by (cases playerAFinished)
     (simp_all add: finishGame_def otherSideFinished_def Let_def updateVersusRoom_def noUpdates_def orKeep_def)

theorem finishGame_flawless_passes_turn_witness:
  "\<not> otherSideFinished (sampleVersusRoom\<lparr>playerAIndex := 1, playerBRightCount := 1\<rparr>) True \<and>
   (if True then playerAWrongCount (sampleVersusRoom\<lparr>playerAIndex := 1, playerBRightCount := 1\<rparr>)
    else playerBWrongCount (sampleVersusRoom\<lparr>playerAIndex := 1, playerBRightCount := 1\<rparr>)) = 0 \<and>
   vr_status (finishGame (Some (sampleVersusRoom\<lparr>playerAIndex := 1, playerBRightCount := 1\<rparr>)) True 3000
                (sampleVersusRoom\<lparr>playerAIndex := 2, playerBRightCount := 2, playerATime := 2000\<rparr>))
     = VersusActive \<and>
   winnerId (finishGame (Some (sampleVersusRoom\<lparr>playerAIndex := 1, playerBRightCount := 1\<rparr>)) True 3000
                (sampleVersusRoom\<lparr>playerAIndex := 2, playerBRightCount := 2, playerATime := 2000\<rparr>))
     = None \<and>
   currentTurn (finishGame (Some (sampleVersusRoom\<lparr>playerAIndex := 1, playerBRightCount := 1\<rparr>)) True 3000
                (sampleVersusRoom\<lparr>playerAIndex := 2, playerBRightCount := 2, playerATime := 2000\<rparr>))
     = Some ''bob'' \<and>
   turnStartTime (finishGame (Some (sampleVersusRoom\<lparr>playerAIndex := 1, playerBRightCount := 1\<rparr>)) True 3000
                (sampleVersusRoom\<lparr>playerAIndex := 2, playerBRightCount := 2, playerATime := 2000\<rparr>))
     = Some 3000"
proof -
  have h1: "\<not> otherSideFinished (sampleVersusRoom\<lparr>playerAIndex := 1, playerBRightCount := 1\<rparr>) True"
    by (simp add: otherSideFinished_def sampleVersusRoom_def sampleVersusWords_def)
  have h2: "(if True then playerAWrongCount (sampleVersusRoom\<lparr>playerAIndex := 1, playerBRightCount := 1\<rparr>)
    else playerBWrongCount (sampleVersusRoom\<lparr>playerAIndex := 1, playerBRightCount := 1\<rparr>)) = 0"
    by (simp add: sampleVersusRoom_def)
  note T = finishGame_flawless_passes_turn[OF h1 h2, of 3000
      "sampleVersusRoom\<lparr>playerAIndex := 2, playerBRightCount := 2, playerATime := 2000\<rparr>"]
  show ?thesis using h1 h2 T by (simp add: sampleVersusRoom_def)
qed

text \<open>
  The same through \<^verbatim>\<open>handleAnswer\<close>: the answer that exhausts the reader's list, right or
  wrong, ends in that hand-over when the reader's wrong count is 0 and the other side has
  words left.
\<close>

lemma handleAnswer_flawless_finish:
  assumes turn: "currentTurn room = Some user"
    and last_word: "(if user = playerAId room then playerAIndex room + 1 \<ge> int (length (playerAWords room))
                     else playerBIndex room + 1 \<ge> int (length (playerBWords room)))"
    and other: "\<not> otherSideFinished room (user = playerAId room)"
    and flawless: "(if user = playerAId room then playerAWrongCount room else playerBWrongCount room) = 0"
  shows "vr_status (handleAnswer (Some room) user correct clockNow clockTurn row) = vr_status row \<and>
         winnerId (handleAnswer (Some room) user correct clockNow clockTurn row) = winnerId row \<and>
         currentTurn (handleAnswer (Some room) user correct clockNow clockTurn row)
           = (if user = playerAId room then playerBId room else Some (playerAId room)) \<and>
         turnStartTime (handleAnswer (Some room) user correct clockNow clockTurn row) = Some clockTurn"
  using turn last_word other flawless
  by (cases "user = playerAId room"; cases correct)
     (simp_all add: handleAnswer_def finishGame_def otherSideFinished_def Let_def
        updateVersusRoom_def noUpdates_def orKeep_def)

text \<open>
  A game of two words a side. Alice reads first: one right answer, then a wrong one on her
  last word; her own wrong count is 0, so the turn passes to Bob.
\<close>

lemma versus_step1:
  "versusAnswers sampleVersusRoom [(''alice'', True, 2000, 2000), (''alice'', False, 3000, 3000)]
   = sampleVersusRoom\<lparr>currentTurn := Some ''bob'', playerAIndex := 2, playerBRightCount := 1,
        playerBWrongCount := 1, playerATime := 2000, turnStartTime := Some 3000\<rparr>"
  by (simp add: handleAnswer_def finishGame_def Let_def updateVersusRoom_def noUpdates_def orKeep_def
        sampleVersusRoom_def sampleVersusWords_def)

text \<open>
  C6. The claim is that at mutual completion the player with the strictly higher right count
  wins. \<^verbatim>\<open>handleAnswer\<close> writes the credit for the last answer to the store and then calls
  \<^verbatim>\<open>finishGame\<close>, which compares the counts of the component's \<^verbatim>\<open>room\<close> state, read before
  that write. In the game above Bob then reads both his words and Alice answers both
  correctly: the stored counts end at 2 for Alice and 1 for Bob, \<^verbatim>\<open>finishGame\<close> compares 1
  with 1, falls to the time comparison (Bob's stored time is still 0 in the state it reads)
  and records Bob as the winner.
\<close>

theorem versus_last_credit_not_compared:
  "playerARightCount
     (versusAnswers sampleVersusRoom
        [(''alice'', True, 2000, 2000), (''alice'', False, 3000, 3000),
         (''bob'', True, 4000, 4000), (''bob'', True, 5000, 5000)]) = 2 \<and>
   playerBRightCount
     (versusAnswers sampleVersusRoom
        [(''alice'', True, 2000, 2000), (''alice'', False, 3000, 3000),
         (''bob'', True, 4000, 4000), (''bob'', True, 5000, 5000)]) = 1 \<and>
   vr_status
     (versusAnswers sampleVersusRoom
        [(''alice'', True, 2000, 2000), (''alice'', False, 3000, 3000),
         (''bob'', True, 4000, 4000), (''bob'', True, 5000, 5000)]) = VersusFinished \<and>
   winnerId
     (versusAnswers sampleVersusRoom
        [(''alice'', True, 2000, 2000), (''alice'', False, 3000, 3000),
         (''bob'', True, 4000, 4000), (''bob'', True, 5000, 5000)]) = Some ''bob''"
  by (simp add: handleAnswer_def finishGame_def Let_def updateVersusRoom_def noUpdates_def orKeep_def
        sampleVersusRoom_def sampleVersusWords_def)

text \<open>
  In general: when player B gives the last right answer of the game while the counts read by
  the component are level and A's time is not the lower one, the stored row ends with one more
  right answer for A than for B and names B as the winner.
\<close>

lemma handleAnswer_last_credit_ignored:
  assumes turn: "currentTurn room = Some user"
    and reader: "user \<noteq> playerAId room"
    and last_word: "int (length (playerBWords room)) \<le> playerBIndex room + 1"
    and other: "int (length (playerAWords room)) \<le> playerAIndex room"
    and tie: "playerARightCount room = playerBRightCount room"
    and time: "\<not> playerATime room < playerBTime room"
  shows "playerARightCount (handleAnswer (Some room) user True clockNow clockTurn room)
           = playerBRightCount (handleAnswer (Some room) user True clockNow clockTurn room) + 1 \<and>
         vr_status (handleAnswer (Some room) user True clockNow clockTurn room) = VersusFinished \<and>
         winnerId (handleAnswer (Some room) user True clockNow clockTurn room) = playerBId room"
  using assms
  by (simp add: handleAnswer_def finishGame_def Let_def updateVersusRoom_def noUpdates_def orKeep_def)

section \<open>Properties of word selection\<close>

subsection \<open>When scoring raises and when it returns\<close>

lemma scoreWord_empty_candidate: "scoreWord [] correct r = Inl TypeError"
  by (simp add: scoreWord_def Let_def)

lemma scoreWord_empty_correct: "scoreWord candidate [] r = Inl TypeError"
  by (simp add: scoreWord_def Let_def split: list.splits)

lemma scoreWord_only_TypeError: "scoreWord candidate correct r = Inl e \<Longrightarrow> e = TypeError"
  by (auto simp: scoreWord_def Let_def split: list.splits)

lemma mapThrowing_fails:
  assumes "\<exists>x \<in> set xs. f x = Inl TypeError"
    and "\<And>x e. x \<in> set xs \<Longrightarrow> f x = Inl e \<Longrightarrow> e = TypeError"
  shows "mapThrowing f xs = Inl TypeError"
  using assms
proof (induction xs)
  case Nil then show ?case by simp
next
  case (Cons x xs)
  show ?case
  proof (cases "f x")
    case (Inl e)
    then have "e = TypeError" using Cons.prems(2)[of x e] by simp
    then show ?thesis using Inl by simp
  next
    case (Inr y)
    then have "\<exists>x \<in> set xs. f x = Inl TypeError" using Cons.prems(1) by auto
    then have "mapThrowing f xs = Inl TypeError" using Cons.IH Cons.prems(2) by auto
    then show ?thesis using Inr by simp
  qed
qed

lemma generateWrongAnswers_empty_word_throws:
  assumes cand: "w \<in> set allWords" "wo_id w \<noteq> wo_id correctWord" "wo_word w = []"
    and enough: "count \<le> length (filter (\<lambda>w. wo_id w \<noteq> wo_id correctWord) allWords)"
  shows "generateWrongAnswers correctWord allWords count rand = Inl TypeError"
proof -
  let ?cs = "filter (\<lambda>w. wo_id w \<noteq> wo_id correctWord) allWords"
  let ?f = "\<lambda>(k, w). case scoreWord (wo_word w) (wo_word correctWord) (rand k) of
                               Inl e \<Rightarrow> Inl e
                             | Inr sc \<Rightarrow> Inr (w, sc)"
  have "w \<in> set ?cs" using cand by simp
  then obtain k where kn: "k < length ?cs" "?cs ! k = w"
    unfolding in_set_conv_nth by blast
  then have k: "(k, w) \<in> set (enumerate 0 ?cs)"
    by (simp add: in_set_enumerate_eq)
  have "?f (k, w) = Inl TypeError" using cand(3) by (simp add: scoreWord_empty_candidate)
  then have ex: "\<exists>x \<in> set (enumerate 0 ?cs). ?f x = Inl TypeError" using k by blast
  have only: "\<And>x e. x \<in> set (enumerate 0 ?cs) \<Longrightarrow> ?f x = Inl e \<Longrightarrow> e = TypeError"
    by (auto split: sum.splits dest: scoreWord_only_TypeError)
  have "mapThrowing ?f (enumerate 0 ?cs) = Inl TypeError"
    by (rule mapThrowing_fails[OF ex only])
  then show ?thesis using enough by (simp add: generateWrongAnswers_def Let_def)
qed

lemma scoreWord_returns:
  "candidate \<noteq> [] \<Longrightarrow> correct \<noteq> [] \<Longrightarrow> \<exists>s. scoreWord candidate correct r = Inr s"
  by (cases candidate; cases correct) (simp_all add: scoreWord_def Let_def)

lemma mapThrowing_returns:
  "\<forall>x \<in> set xs. \<exists>y. f x = Inr y \<Longrightarrow> \<exists>ys. mapThrowing f xs = Inr ys \<and> length ys = length xs"
proof (induction xs)
  case Nil then show ?case by simp
next
  case (Cons x xs)
  then obtain y where y: "f x = Inr y" by auto
  from Cons obtain ys where "mapThrowing f xs = Inr ys" "length ys = length xs" by auto
  then show ?case using y by simp
qed

lemma generateWrongAnswers_returns:
  assumes "wo_word correctWord \<noteq> []"
    and "\<forall>w \<in> set allWords. wo_word w \<noteq> []"
    and "count \<le> length (filter (\<lambda>w. wo_id w \<noteq> wo_id correctWord) allWords)"
  shows "\<exists>ws. generateWrongAnswers correctWord allWords count rand = Inr ws \<and> length ws = count"
proof -
  let ?cs = "filter (\<lambda>w. wo_id w \<noteq> wo_id correctWord) allWords"
  let ?f = "\<lambda>(k, w). case scoreWord (wo_word w) (wo_word correctWord) (rand k) of
                               Inl e \<Rightarrow> Inl e
                             | Inr sc \<Rightarrow> Inr (w, sc)"
  have "\<forall>x \<in> set (enumerate 0 ?cs). \<exists>y. ?f x = Inr y"
  proof
    fix x assume "x \<in> set (enumerate 0 ?cs)"
    then have "snd x \<in> set ?cs"
      by (metis in_set_zipE enumerate_eq_zip prod.collapse)
    then have "snd x \<in> set allWords" by simp
    then have "wo_word (snd x) \<noteq> []" using assms(2) by simp
    from scoreWord_returns[OF this assms(1)] obtain s where
      "scoreWord (wo_word (snd x)) (wo_word correctWord) (rand (fst x)) = Inr s" by blast
    then show "\<exists>y. ?f x = Inr y" by (cases x) simp
  qed
  from mapThrowing_returns[OF this] obtain scored where
    sc: "mapThrowing ?f (enumerate 0 ?cs) = Inr scored" "length scored = length ?cs"
    by auto
  show ?thesis using sc assms(3) by (simp add: generateWrongAnswers_def Let_def)
qed

lemma generateQuestion_returns:
  assumes "rw_word cw \<noteq> []"
    and "\<forall>w \<in> set allWords. wo_word w \<noteq> []"
    and "2 \<le> length (filter (\<lambda>w. wo_id w \<noteq> rw_id cw) allWords)"
  shows "\<exists>q. generateQuestion (Some cw) allWords rand picks = Inr q \<and> q_wordId q = rw_id cw"
proof -
  from generateWrongAnswers_returns[of "\<lparr>wo_id = rw_id cw, wo_word = rw_word cw\<rparr>" allWords 2 rand]
  obtain ws where "generateWrongAnswers \<lparr>wo_id = rw_id cw, wo_word = rw_word cw\<rparr> allWords 2 rand = Inr ws"
    using assms by auto
  then show ?thesis by (simp add: generateQuestion_def)
qed

lemma generateQuestion_target:
  "generateQuestion (Some cw) allWords rand picks = Inr q \<Longrightarrow>
   q_wordId q = rw_id cw \<and> q_word q = rw_word cw \<and> q_definition q = rw_definition cw"
  by (auto simp: generateQuestion_def split: sum.splits)

text \<open>
  C5. The claim is that the selection functions never raise on malformed input, and in
  particular that scoring a candidate whose text is the empty string does not raise.
  \<^verbatim>\<open>candidate[0].toLowerCase()\<close> raises a \<^verbatim>\<open>TypeError\<close> on the empty string, and the exception
  leaves \<^verbatim>\<open>generateWrongAnswers\<close> and \<^verbatim>\<open>generateQuestion\<close> uncaught, although there are enough
  words.
\<close>

theorem scoreWord_throws_on_empty_word:
  "scoreWord '''' ''apple'' r = Inl TypeError \<and>
   generateWrongAnswers \<lparr>wo_id = ''w1'', wo_word = ''apple''\<rparr>
     [\<lparr>wo_id = ''w1'', wo_word = ''apple''\<rparr>, \<lparr>wo_id = ''w2'', wo_word = ''''\<rparr>,
      \<lparr>wo_id = ''w3'', wo_word = ''pear''\<rparr>] 2 rand = Inl TypeError \<and>
   generateQuestion
     (Some \<lparr>rw_id = ''w1'', rw_word = ''apple'', rw_hint = ''fruit'', rw_definition = ''a round fruit''\<rparr>)
     [\<lparr>wo_id = ''w1'', wo_word = ''apple''\<rparr>, \<lparr>wo_id = ''w2'', wo_word = ''''\<rparr>,
      \<lparr>wo_id = ''w3'', wo_word = ''pear''\<rparr>] rand picks = Inl TypeError"
proof -
  have g: "generateWrongAnswers \<lparr>wo_id = ''w1'', wo_word = ''apple''\<rparr>
     [\<lparr>wo_id = ''w1'', wo_word = ''apple''\<rparr>, \<lparr>wo_id = ''w2'', wo_word = ''''\<rparr>,
      \<lparr>wo_id = ''w3'', wo_word = ''pear''\<rparr>] 2 rand = Inl TypeError"
    by (rule generateWrongAnswers_empty_word_throws[where w = "\<lparr>wo_id = ''w2'', wo_word = ''''\<rparr>"])
       simp_all
  have q: "generateQuestion
     (Some \<lparr>rw_id = ''w1'', rw_word = ''apple'', rw_hint = ''fruit'', rw_definition = ''a round fruit''\<rparr>)
     [\<lparr>wo_id = ''w1'', wo_word = ''apple''\<rparr>, \<lparr>wo_id = ''w2'', wo_word = ''''\<rparr>,
      \<lparr>wo_id = ''w3'', wo_word = ''pear''\<rparr>] rand picks = Inl TypeError"
    by (simp add: generateQuestion_def g)
  show ?thesis using g q by (simp add: scoreWord_empty_candidate)
qed

section \<open>Properties of reverse mode\<close>

lemma find_map_same_id:
  assumes "\<And>r. rr_id (f r) = rr_id r"
  shows "find (\<lambda>r. rr_id r = roomId) (map f rs) = map_option f (find (\<lambda>r. rr_id r = roomId) rs)"
  using assms by (induction rs) auto

subsection \<open>Submitting an answer twice\<close>

lemma submitAnswer_existing_row:
  assumes "list_ex (sameAnswerKey roomId questionIndex userId) (answers store)"
  shows "snd (submitAnswer store roomId questionIndex userId selected answerTime) = store"
  using assms
  by (auto simp: submitAnswer_def insertAnswer_def Let_def split: option.splits prod.splits)

lemma submitAnswer_existing_row_returns:
  assumes "list_ex (sameAnswerKey roomId questionIndex userId) (answers store)"
    and "getReverseRoom store roomId = Some (room, ps)" and "currentQuestion room \<noteq> None"
  shows "fst (submitAnswer store roomId questionIndex userId selected answerTime) = Inr ()"
  using assms
  by (auto simp: submitAnswer_def insertAnswer_def Let_def split: option.splits prod.splits)

lemma unique_key_once:
  "distinct (map key xs) \<Longrightarrow> x \<in> set xs \<Longrightarrow> length (filter (\<lambda>y. key y = key x) xs) = 1"
proof (induction xs)
  case Nil then show ?case by simp
next
  case (Cons y ys)
  show ?case
  proof (cases "key y = key x")
    case True
    then have "\<forall>z \<in> set ys. key z \<noteq> key x" using Cons.prems(1) by (auto simp: image_iff)
    then have "filter (\<lambda>z. key z = key x) ys = []" by (simp add: filter_empty_conv)
    then show ?thesis using True by simp
  next
    case False
    then have "x \<in> set ys" using Cons.prems(2) by auto
    then show ?thesis using Cons.IH Cons.prems(1) False by simp
  qed
qed

lemma uniqueAnswers_one_row:
  assumes "uniqueAnswers store" "list_ex (sameAnswerKey roomId questionIndex userId) (answers store)"
  shows "length (answersOf store roomId questionIndex userId) = 1"
proof -
  from assms(2) obtain a where a: "a \<in> set (answers store)" "sameAnswerKey roomId questionIndex userId a"
    by (auto simp: list_ex_iff)
  let ?key = "\<lambda>a. (ra_roomId a, ra_questionIndex a, ra_userId a)"
  have "sameAnswerKey roomId questionIndex userId = (\<lambda>y. ?key y = ?key a)"
    using a(2) by (auto simp: sameAnswerKey_def fun_eq_iff)
  then show ?thesis
    using unique_key_once[of ?key "answers store" a] assms(1) a(1)
    by (simp add: answersOf_def uniqueAnswers_def)
qed

text \<open>
  C8. In a store that satisfies the uniqueness constraint of the answers table, submitting
  an answer for a (room, question, user) that already has an answer row changes nothing:
  the store is the same, that key still has exactly one row and the player's score is what
  it was. When the room has a current question the call returns normally.
\<close>

theorem submitAnswer_duplicate_noop:
  assumes uniq: "uniqueAnswers store"
    and dup: "list_ex (sameAnswerKey roomId questionIndex userId) (answers store)"
  shows "snd (submitAnswer store roomId questionIndex userId selected answerTime) = store \<and>
         length (answersOf (snd (submitAnswer store roomId questionIndex userId selected answerTime))
                   roomId questionIndex userId) = 1 \<and>
         scoreOf (snd (submitAnswer store roomId questionIndex userId selected answerTime)) roomId userId
           = scoreOf store roomId userId \<and>
         (\<forall>room ps. getReverseRoom store roomId = Some (room, ps) \<and> currentQuestion room \<noteq> None \<longrightarrow>
            fst (submitAnswer store roomId questionIndex userId selected answerTime) = Inr ())"
  using submitAnswer_existing_row[OF dup] uniqueAnswers_one_row[OF uniq dup]
    submitAnswer_existing_row_returns[OF dup]
  by auto

lemma sampleOneAnswered_eval:
  "sampleOneAnswered =
     sampleReverseStore
       \<lparr>players := [\<lparr>rp_roomId = ''r1'', rp_userId = ''alice'', joinOrder = 1, totalScore = 1\<rparr>,
                    \<lparr>rp_roomId = ''r1'', rp_userId = ''bob'', joinOrder = 2, totalScore = 0\<rparr>],
        answers := [\<lparr>ra_roomId = ''r1'', ra_questionIndex = 1, ra_userId = ''alice'',
                     selectedWordId = ''w1'', isCorrect = True, wasOnlyCorrect = False,
                     pointsEarned = 1, answerTimeMs = 500\<rparr>]\<rparr>"
  by (simp add: sampleOneAnswered_def submitAnswer_def getReverseRoom_def insertAnswer_def
        increment_reverse_score_def sampleReverseStore_def sampleQuestion_def Let_def)

theorem submitAnswer_duplicate_noop_witness:
  "uniqueAnswers sampleOneAnswered \<and>
   list_ex (sameAnswerKey ''r1'' 1 ''alice'') (answers sampleOneAnswered) \<and>
   snd (submitAnswer sampleOneAnswered ''r1'' 1 ''alice'' ''w1'' 650) = sampleOneAnswered \<and>
   length (answersOf (snd (submitAnswer sampleOneAnswered ''r1'' 1 ''alice'' ''w1'' 650)) ''r1'' 1 ''alice'') = 1 \<and>
   scoreOf (snd (submitAnswer sampleOneAnswered ''r1'' 1 ''alice'' ''w1'' 650)) ''r1'' ''alice'' = [1] \<and>
   fst (submitAnswer sampleOneAnswered ''r1'' 1 ''alice'' ''w1'' 650) = Inr ()"
proof -
  have h1: "uniqueAnswers sampleOneAnswered"
    by (simp add: sampleOneAnswered_eval uniqueAnswers_def)
  have h2: "list_ex (sameAnswerKey ''r1'' 1 ''alice'') (answers sampleOneAnswered)"
    by (simp add: sampleOneAnswered_eval sameAnswerKey_def)
  have h3: "getReverseRoom sampleOneAnswered ''r1'' = Some (hd (rooms sampleReverseStore), players sampleOneAnswered)"
    by (simp add: sampleOneAnswered_eval) (simp add: getReverseRoom_def sampleReverseStore_def)
  have h4: "currentQuestion (hd (rooms sampleReverseStore)) \<noteq> None"
    by (simp add: sampleReverseStore_def)
  have sc: "scoreOf sampleOneAnswered ''r1'' ''alice'' = [1]"
    by (simp add: sampleOneAnswered_eval scoreOf_def)
  note T = submitAnswer_duplicate_noop[OF h1 h2, of "''w1''" 650]
  from T h3 h4 have f: "fst (submitAnswer sampleOneAnswered ''r1'' 1 ''alice'' ''w1'' 650) = Inr ()"
    by blast
  from T have a: "snd (submitAnswer sampleOneAnswered ''r1'' 1 ''alice'' ''w1'' 650) = sampleOneAnswered"
    and b: "length (answersOf (snd (submitAnswer sampleOneAnswered ''r1'' 1 ''alice'' ''w1'' 650))
              ''r1'' 1 ''alice'') = 1"
    and c: "scoreOf (snd (submitAnswer sampleOneAnswered ''r1'' 1 ''alice'' ''w1'' 650)) ''r1'' ''alice''
              = scoreOf sampleOneAnswered ''r1'' ''alice''"
    by blast+
  from c sc have c': "scoreOf (snd (submitAnswer sampleOneAnswered ''r1'' 1 ''alice'' ''w1'' 650))
      ''r1'' ''alice'' = [1]"
    by (rule trans)
  show ?thesis using h1 h2 a b c' f by blast
qed

text \<open>
  The constraint is kept by every submission, and a second submission for the same key never
  changes what the first one left.
\<close>

lemma insertAnswer_unique:
  assumes "uniqueAnswers store" "insertAnswer store a = Some store1"
  shows "uniqueAnswers store1"
proof -
  have no: "\<not> list_ex (sameAnswerKey (ra_roomId a) (ra_questionIndex a) (ra_userId a)) (answers store)"
    and st: "store1 = store\<lparr>answers := answers store @ [a]\<rparr>"
    using assms(2) by (auto simp: insertAnswer_def split: if_splits)
  have "(ra_roomId a, ra_questionIndex a, ra_userId a)
          \<notin> (\<lambda>a. (ra_roomId a, ra_questionIndex a, ra_userId a)) ` set (answers store)"
  proof
    assume "(ra_roomId a, ra_questionIndex a, ra_userId a)
          \<in> (\<lambda>a. (ra_roomId a, ra_questionIndex a, ra_userId a)) ` set (answers store)"
    then obtain b where "b \<in> set (answers store)"
      "ra_roomId b = ra_roomId a" "ra_questionIndex b = ra_questionIndex a" "ra_userId b = ra_userId a"
      by auto
    then have "list_ex (sameAnswerKey (ra_roomId a) (ra_questionIndex a) (ra_userId a)) (answers store)"
      unfolding list_ex_iff sameAnswerKey_def by blast
    with no show False by simp
  qed
  then show ?thesis using assms(1) st by (simp add: uniqueAnswers_def)
qed

lemma increment_reverse_score_answers:
  "answers (increment_reverse_score store roomId userId points) = answers store"
  by (simp add: increment_reverse_score_def)

lemma submitAnswer_unique:
  assumes "uniqueAnswers store"
  shows "uniqueAnswers (snd (submitAnswer store roomId questionIndex userId selected answerTime))"
proof -
  have "\<And>row store1. insertAnswer store row = Some store1 \<Longrightarrow>
          uniqueAnswers store1 \<and> uniqueAnswers (increment_reverse_score store1 roomId userId 1)"
    using insertAnswer_unique[OF assms]
    by (simp add: uniqueAnswers_def increment_reverse_score_answers)
  then show ?thesis using assms
    by (auto simp: submitAnswer_def Let_def split: option.splits prod.splits)
qed

lemma submitAnswer_idempotent:
  "snd (submitAnswer (snd (submitAnswer store roomId questionIndex userId selected answerTime))
          roomId questionIndex userId selected2 answerTime2)
   = snd (submitAnswer store roomId questionIndex userId selected answerTime)"
proof (cases "\<exists>room ps. getReverseRoom store roomId = Some (room, ps) \<and> currentQuestion room \<noteq> None")
  case False
  then have "snd (submitAnswer store roomId questionIndex userId selected answerTime) = store"
    by (auto simp: submitAnswer_def split: option.splits prod.splits)
  moreover from False
  have "snd (submitAnswer store roomId questionIndex userId selected2 answerTime2) = store"
    by (auto simp: submitAnswer_def split: option.splits prod.splits)
  ultimately show ?thesis by simp
next
  case True
  then have "list_ex (sameAnswerKey roomId questionIndex userId)
     (answers (snd (submitAnswer store roomId questionIndex userId selected answerTime)))"
    by (auto simp: submitAnswer_def Let_def insertAnswer_def increment_reverse_score_def
          list_ex_iff sameAnswerKey_def split: option.splits prod.splits)
  then show ?thesis by (rule submitAnswer_existing_row)
qed

subsection \<open>The bonus\<close>

text \<open>
  One run of the check: nothing happens until every seated player has an answer row; then
  the score of a player is incremented exactly when the correct answers for the question
  are a single one, that player's.
\<close>

lemma check_waits_for_all_answers:
  assumes "getReverseRoom store roomId = Some (room, ps)"
    and "length (filter (\<lambda>a. ra_roomId a = roomId \<and> ra_questionIndex a = questionIndex)
                   (answers store)) < length ps"
  shows "checkAllAnswersAndCalculateBonus store roomId questionIndex = (False, store)"
  using assms by (simp add: checkAllAnswersAndCalculateBonus_def Let_def)

lemma check_bonus_iff_one_correct:
  assumes "getReverseRoom store roomId = Some (room, ps)"
    and "length ps \<le> length (filter (\<lambda>a. ra_roomId a = roomId \<and> ra_questionIndex a = questionIndex)
                   (answers store))"
  shows "fst (checkAllAnswersAndCalculateBonus store roomId questionIndex) = True \<and>
         players (snd (checkAllAnswersAndCalculateBonus store roomId questionIndex))
           = (case filter isCorrect
                     (filter (\<lambda>a. ra_roomId a = roomId \<and> ra_questionIndex a = questionIndex)
                        (answers store)) of
                [only] \<Rightarrow> players (increment_reverse_score store roomId (ra_userId only) 1)
              | _ \<Rightarrow> players store)"
  using assms
  by (auto simp: checkAllAnswersAndCalculateBonus_def Let_def updateReverseRoom_def
        increment_reverse_score_def split: list.splits)

lemma filter_map_preserved:
  assumes "\<And>x. P (g x) = P x"
  shows "filter P (map g xs) = map g (filter P xs)"
  using assms by (induction xs) auto

text \<open>
  A second run on the store the first run left: the answers are still all there and the
  single correct one is still single, so the same player is incremented once more.
\<close>

lemma check_again_awards_again:
  assumes room: "find (\<lambda>r. rr_id r = roomId) (rooms store) = Some r0"
    and all: "length (filter (\<lambda>p. rp_roomId p = roomId) (players store))
                \<le> length (filter (\<lambda>a. ra_roomId a = roomId \<and> ra_questionIndex a = questionIndex)
                             (answers store))"
    and one: "filter isCorrect
                (filter (\<lambda>a. ra_roomId a = roomId \<and> ra_questionIndex a = questionIndex)
                   (answers store)) = [only]"
  shows "players (snd (checkAllAnswersAndCalculateBonus
                         (snd (checkAllAnswersAndCalculateBonus store roomId questionIndex))
                         roomId questionIndex))
         = players (increment_reverse_score
                      (increment_reverse_score store roomId (ra_userId only) 1)
                      roomId (ra_userId only) 1)"
proof -
  let ?key = "\<lambda>a. ra_roomId a = roomId \<and> ra_questionIndex a = questionIndex"
  let ?u = "ra_userId only"
  let ?g = "\<lambda>a. if sameAnswerKey roomId questionIndex ?u a
                 then a\<lparr>wasOnlyCorrect := True, pointsEarned := 2\<rparr> else a"
  let ?h = "\<lambda>p. if rp_roomId p = roomId \<and> rp_userId p = ?u
                 then p\<lparr>totalScore := totalScore p + 1\<rparr> else p"
  let ?k = "\<lambda>r. if rr_id r = roomId then r\<lparr>rr_status := ReverseResults\<rparr> else r"
  let ?ps = "sort_key joinOrder (filter (\<lambda>p. rp_roomId p = roomId) (players store))"
  let ?s1 = "snd (checkAllAnswersAndCalculateBonus store roomId questionIndex)"
  have g0: "getReverseRoom store roomId = Some (r0, ?ps)"
    using room by (simp add: getReverseRoom_def)
  have all0: "length ?ps \<le> length (filter ?key (answers store))" using all by simp
  have s1: "?s1 = store\<lparr>rooms := map ?k (rooms store), players := map ?h (players store),
                         answers := map ?g (answers store)\<rparr>"
    using g0 all0 one
    by (simp add: checkAllAnswersAndCalculateBonus_def Let_def updateReverseRoom_def
          increment_reverse_score_def noReverseUpdates_def)
  have rooms1: "find (\<lambda>r. rr_id r = roomId) (rooms ?s1) = Some (?k r0)"
    using find_map_same_id[of ?k roomId "rooms store"] room by (simp add: s1)
  let ?ps1 = "sort_key joinOrder (filter (\<lambda>p. rp_roomId p = roomId) (players ?s1))"
  have g1: "getReverseRoom ?s1 roomId = Some (?k r0, ?ps1)"
    using rooms1 by (simp add: getReverseRoom_def)
  have "filter (\<lambda>p. rp_roomId p = roomId) (map ?h (players store))
          = map ?h (filter (\<lambda>p. rp_roomId p = roomId) (players store))"
    by (rule filter_map_preserved) simp
  then have len1: "length ?ps1 = length (filter (\<lambda>p. rp_roomId p = roomId) (players store))"
    by (simp add: s1)
  have f1: "filter ?key (answers ?s1) = map ?g (filter ?key (answers store))"
    unfolding s1 by (simp add: filter_map_preserved)
  have all1: "length ?ps1 \<le> length (filter ?key (answers ?s1))"
    using all len1 f1 by simp
  have "filter isCorrect (map ?g (filter ?key (answers store)))
          = map ?g (filter isCorrect (filter ?key (answers store)))"
    by (rule filter_map_preserved) simp
  then have one1: "filter isCorrect (filter ?key (answers ?s1)) = [?g only]"
    using f1 one by simp
  have u1: "ra_userId (?g only) = ?u" by simp
  from check_bonus_iff_one_correct[OF g1 all1]
  have "players (snd (checkAllAnswersAndCalculateBonus ?s1 roomId questionIndex))
          = players (increment_reverse_score ?s1 roomId (ra_userId (?g only)) 1)"
    using one1 by simp
  also have "\<dots> = map ?h (map ?h (players store))"
    unfolding u1 by (simp add: increment_reverse_score_def s1)
  also have "\<dots> = players (increment_reverse_score
                      (increment_reverse_score store roomId ?u 1) roomId ?u 1)"
    by (simp add: increment_reverse_score_def)
  finally show ?thesis .
qed

lemma sampleAllAnswered_eval:
  "sampleAllAnswered =
     sampleReverseStore
       \<lparr>players := [\<lparr>rp_roomId = ''r1'', rp_userId = ''alice'', joinOrder = 1, totalScore = 1\<rparr>,
                    \<lparr>rp_roomId = ''r1'', rp_userId = ''bob'', joinOrder = 2, totalScore = 0\<rparr>],
        answers := [\<lparr>ra_roomId = ''r1'', ra_questionIndex = 1, ra_userId = ''alice'',
                     selectedWordId = ''w1'', isCorrect = True, wasOnlyCorrect = False,
                     pointsEarned = 1, answerTimeMs = 500\<rparr>,
                    \<lparr>ra_roomId = ''r1'', ra_questionIndex = 1, ra_userId = ''bob'',
                     selectedWordId = ''w2'', isCorrect = False, wasOnlyCorrect = False,
                     pointsEarned = 0, answerTimeMs = 700\<rparr>]\<rparr>"
  by (simp add: sampleAllAnswered_def sampleOneAnswered_eval)
     (simp add: submitAnswer_def getReverseRoom_def insertAnswer_def sameAnswerKey_def
        increment_reverse_score_def sampleReverseStore_def sampleQuestion_def Let_def)

lemma check_once_eval:
  "checkAllAnswersAndCalculateBonus sampleAllAnswered ''r1'' 1 =
     (True,
      sampleReverseStore
       \<lparr>rooms := [\<lparr>rr_id = ''r1'', rr_hostId = ''alice'', rr_status = ReverseResults,
                   totalQuestions = 10, currentQuestionIndex = 1,
                   currentQuestion = Some sampleQuestion, gameWords = [],
                   questionStartTime = Some 1000, questionDurationMs = 15000\<rparr>],
        players := [\<lparr>rp_roomId = ''r1'', rp_userId = ''alice'', joinOrder = 1, totalScore = 2\<rparr>,
                    \<lparr>rp_roomId = ''r1'', rp_userId = ''bob'', joinOrder = 2, totalScore = 0\<rparr>],
        answers := [\<lparr>ra_roomId = ''r1'', ra_questionIndex = 1, ra_userId = ''alice'',
                     selectedWordId = ''w1'', isCorrect = True, wasOnlyCorrect = True,
                     pointsEarned = 2, answerTimeMs = 500\<rparr>,
                    \<lparr>ra_roomId = ''r1'', ra_questionIndex = 1, ra_userId = ''bob'',
                     selectedWordId = ''w2'', isCorrect = False, wasOnlyCorrect = False,
                     pointsEarned = 0, answerTimeMs = 700\<rparr>]\<rparr>)"
  by (simp add: sampleAllAnswered_eval)
     (simp add: checkAllAnswersAndCalculateBonus_def getReverseRoom_def sameAnswerKey_def
        increment_reverse_score_def updateReverseRoom_def noReverseUpdates_def
        sampleReverseStore_def Let_def)

text \<open>
  C4. The claim is that the bonus is applied exactly when one player alone answered
  correctly, and that running \<^verbatim>\<open>checkAllAnswersAndCalculateBonus\<close> again for the same question
  never adds the bonus a second time. Two players have answered question 1, Alice correctly
  (score 1) and Bob not. The first check sets Alice's answer row to 2 points and her score to
  2. The second check finds the same single correct answer and adds 1 again: the score is 3
  while the answer row still says 2 points.
\<close>

theorem bonus_awarded_again_on_recheck:
  "scoreOf sampleAllAnswered ''r1'' ''alice'' = [1] \<and>
   fst (checkAllAnswersAndCalculateBonus sampleAllAnswered ''r1'' 1) = True \<and>
   scoreOf (snd (checkAllAnswersAndCalculateBonus sampleAllAnswered ''r1'' 1)) ''r1'' ''alice'' = [2] \<and>
   map pointsEarned
     (answersOf (snd (checkAllAnswersAndCalculateBonus sampleAllAnswered ''r1'' 1)) ''r1'' 1 ''alice'')
     = [2] \<and>
   scoreOf (snd (checkAllAnswersAndCalculateBonus
                   (snd (checkAllAnswersAndCalculateBonus sampleAllAnswered ''r1'' 1)) ''r1'' 1))
     ''r1'' ''alice'' = [3] \<and>
   map pointsEarned
     (answersOf (snd (checkAllAnswersAndCalculateBonus
                        (snd (checkAllAnswersAndCalculateBonus sampleAllAnswered ''r1'' 1)) ''r1'' 1))
        ''r1'' 1 ''alice'')
     = [2]"
  by (simp add: check_once_eval)
     (simp add: sampleAllAnswered_eval checkAllAnswersAndCalculateBonus_def getReverseRoom_def sameAnswerKey_def
        increment_reverse_score_def updateReverseRoom_def noReverseUpdates_def scoreOf_def answersOf_def
        sampleReverseStore_def Let_def)

subsection \<open>The first question of a game\<close>

lemma advance_after_start:
  assumes room: "find (\<lambda>r. rr_id r = roomId) (rooms store) = Some r0"
    and more: "1 < totalQuestions r0"
    and gen: "generateQuestion (nthOpt gWords 1) allWords rand picks = Inr q"
  shows "advanceToNextQuestion (startReverseGame store roomId gWords) roomId allWords rand picks clock
         = (Inr (),
            updateReverseRoom (startReverseGame store roomId gWords) roomId
              \<lparr>ru_status = Some ReverseQuestion, ru_currentQuestionIndex = Some 1,
               ru_currentQuestion = Some (Some q), ru_questionStartTime = Some (Some clock)\<rparr>)"
proof -
  let ?f = "\<lambda>r. if rr_id r = roomId
                 then r\<lparr>rr_status := ReverseActive, gameWords := gWords, currentQuestionIndex := 0\<rparr>
                 else r"
  have "find (\<lambda>r. rr_id r = roomId) (map ?f (rooms store)) = map_option ?f (Some r0)"
    using find_map_same_id[of ?f roomId "rooms store"] room by simp
  moreover have "rr_id r0 = roomId" using room by (auto simp: find_Some_iff)
  ultimately have f: "find (\<lambda>r. rr_id r = roomId) (rooms (startReverseGame store roomId gWords))
      = Some (r0\<lparr>rr_status := ReverseActive, gameWords := gWords, currentQuestionIndex := 0\<rparr>)"
    by (simp add: startReverseGame_def)
  show ?thesis using f more gen
    by (simp add: advanceToNextQuestion_def getReverseRoom_def Let_def)
qed

text \<open>
  Every later advance moves one index further, and the game is finalized when the next index
  reaches \<^verbatim>\<open>totalQuestions\<close>: the targets of a game are the game words at indices 1 to
  \<^verbatim>\<open>totalQuestions - 1\<close>.
\<close>

lemma advance_builds_from_next_index:
  assumes "find (\<lambda>r. rr_id r = roomId) (rooms store) = Some r0"
    and "currentQuestionIndex r0 + 1 < totalQuestions r0"
    and "generateQuestion (nthOpt (gameWords r0) (currentQuestionIndex r0 + 1)) allWords rand picks
           = Inr q"
  shows "advanceToNextQuestion store roomId allWords rand picks clock
         = (Inr (),
            updateReverseRoom store roomId
              \<lparr>ru_status = Some ReverseQuestion,
               ru_currentQuestionIndex = Some (currentQuestionIndex r0 + 1),
               ru_currentQuestion = Some (Some q), ru_questionStartTime = Some (Some clock)\<rparr>)"
  using assms by (simp add: advanceToNextQuestion_def getReverseRoom_def Let_def)

lemma advance_finishes_game:
  assumes "find (\<lambda>r. rr_id r = roomId) (rooms store) = Some r0"
    and "totalQuestions r0 \<le> currentQuestionIndex r0 + 1"
  shows "advanceToNextQuestion store roomId allWords rand picks clock
         = (Inr (), finalizeGame store roomId)"
  using assms by (simp add: advanceToNextQuestion_def getReverseRoom_def Let_def)

lemma samplePool_words:
  "map (\<lambda>w. \<lparr>wo_id = w_id w, wo_word = w_word w\<rparr>) samplePool =
     [\<lparr>wo_id = ''w0'', wo_word = ''ant''\<rparr>, \<lparr>wo_id = ''w1'', wo_word = ''bee''\<rparr>,
      \<lparr>wo_id = ''w2'', wo_word = ''cat''\<rparr>, \<lparr>wo_id = ''w3'', wo_word = ''dog''\<rparr>,
      \<lparr>wo_id = ''w4'', wo_word = ''eel''\<rparr>, \<lparr>wo_id = ''w5'', wo_word = ''fox''\<rparr>,
      \<lparr>wo_id = ''w6'', wo_word = ''gnu''\<rparr>, \<lparr>wo_id = ''w7'', wo_word = ''hen''\<rparr>,
      \<lparr>wo_id = ''w8'', wo_word = ''jay''\<rparr>, \<lparr>wo_id = ''w9'', wo_word = ''koi''\<rparr>,
      \<lparr>wo_id = ''w10'', wo_word = ''owl''\<rparr>, \<lparr>wo_id = ''w11'', wo_word = ''pig''\<rparr>,
      \<lparr>wo_id = ''w12'', wo_word = ''yak''\<rparr>]"
  by (simp add: samplePool_def sampleItem_def sampleWord_def)

lemma samplePool_selected:
  "map (\<lambda>w. \<lparr>rw_id = w_id w, rw_word = w_word w, rw_hint = w_hint w,
              rw_definition = w_definition w\<rparr>) (take 10 samplePool) =
     map (\<lambda>(i, t). \<lparr>rw_id = i, rw_word = t, rw_hint = ''everywhere'',
                     rw_definition = ''present everywhere''\<rparr>)
       [(''w0'', ''ant''), (''w1'', ''bee''), (''w2'', ''cat''), (''w3'', ''dog''), (''w4'', ''eel''),
        (''w5'', ''fox''), (''w6'', ''gnu''), (''w7'', ''hen''), (''w8'', ''jay''), (''w9'', ''koi'')]"
  by (simp add: samplePool_def sampleItem_def sampleWord_def)

text \<open>
  C3. The claim is that after Start and the first Advance the question is built from the
  first word of the game word list. \<^verbatim>\<open>startReverseGame\<close> stores index 0 and
  \<^verbatim>\<open>advanceToNextQuestion\<close> moves to the index after the stored one, so the first question is
  built from the second game word. With thirteen words w0 to w12, of which w0 to w9 become
  the game words, the room is at index 1 with target w1 after the host's Start, whatever
  numbers are drawn for the distractors.
\<close>

theorem reverse_start_asks_second_word_first:
  "fst (handleStartGame (Some (hd (rooms sampleLobby))) ''alice'' samplePool [] rand picks 1000
          sampleLobby) = None \<and>
   map rr_status
     (rooms (snd (handleStartGame (Some (hd (rooms sampleLobby))) ''alice'' samplePool [] rand picks
                    1000 sampleLobby))) = [ReverseQuestion] \<and>
   map (\<lambda>r. map rw_id (gameWords r))
     (rooms (snd (handleStartGame (Some (hd (rooms sampleLobby))) ''alice'' samplePool [] rand picks
                    1000 sampleLobby)))
     = [[''w0'', ''w1'', ''w2'', ''w3'', ''w4'', ''w5'', ''w6'', ''w7'', ''w8'', ''w9'']] \<and>
   map currentQuestionIndex
     (rooms (snd (handleStartGame (Some (hd (rooms sampleLobby))) ''alice'' samplePool [] rand picks
                    1000 sampleLobby))) = [1] \<and>
   map (\<lambda>r. map_option q_wordId (currentQuestion r))
     (rooms (snd (handleStartGame (Some (hd (rooms sampleLobby))) ''alice'' samplePool [] rand picks
                    1000 sampleLobby))) = [Some ''w1'']"
proof -
  let ?pool = "map (\<lambda>w. \<lparr>wo_id = w_id w, wo_word = w_word w\<rparr>) samplePool"
  let ?w1 = "\<lparr>rw_id = ''w1'', rw_word = ''bee'', rw_hint = ''everywhere'',
              rw_definition = ''present everywhere''\<rparr>"
  have len: "length samplePool = 13" and sh: "shuffleBy [] samplePool = samplePool"
    by (simp_all add: samplePool_def)
  have sel: "selectRandomWords samplePool 10 [] = Inr (take 10 samplePool)"
    by (simp add: selectRandomWords_def len sh)
  have gw: "map (\<lambda>w. \<lparr>rw_id = w_id w, rw_word = w_word w, rw_hint = w_hint w,
              rw_definition = w_definition w\<rparr>) (take 10 samplePool) = sampleGameWords"
    by (simp add: samplePool_selected sampleGameWords_def)
  have nth1: "nthOpt sampleGameWords 1 = Some ?w1"
    by (simp add: nthOpt_def sampleGameWords_def)
  have "\<exists>q. generateQuestion (Some ?w1) ?pool rand picks = Inr q \<and> q_wordId q = rw_id ?w1"
    by (rule generateQuestion_returns) (simp_all add: samplePool_words)
  then obtain q where q: "generateQuestion (Some ?w1) ?pool rand picks = Inr q" "q_wordId q = ''w1''"
    by auto
  have room: "find (\<lambda>r. rr_id r = ''r1'') (rooms sampleLobby) = Some (hd (rooms sampleLobby))"
    and more: "1 < totalQuestions (hd (rooms sampleLobby))"
    and host: "rr_hostId (hd (rooms sampleLobby)) = ''alice''"
    and rid: "rr_id (hd (rooms sampleLobby)) = ''r1''"
    by (simp_all add: sampleLobby_def)
  have gen: "generateQuestion (nthOpt sampleGameWords 1) ?pool rand picks = Inr q"
    using q(1) nth1 by simp
  note adv = advance_after_start[OF room more gen, of 1000]
  have res: "handleStartGame (Some (hd (rooms sampleLobby))) ''alice'' samplePool [] rand picks 1000
          sampleLobby
      = (None, updateReverseRoom (startReverseGame sampleLobby ''r1'' sampleGameWords) ''r1''
              \<lparr>ru_status = Some ReverseQuestion, ru_currentQuestionIndex = Some 1,
               ru_currentQuestion = Some (Some q), ru_questionStartTime = Some (Some 1000)\<rparr>)"
    by (simp add: handleStartGame_def host rid len sel gw adv Let_def)
  have ids: "map rw_id sampleGameWords
      = [''w0'', ''w1'', ''w2'', ''w3'', ''w4'', ''w5'', ''w6'', ''w7'', ''w8'', ''w9'']"
    by (simp add: sampleGameWords_def)
  show ?thesis
    unfolding res
    by (simp add: updateReverseRoom_def startReverseGame_def sampleLobby_def q(2) ids)
qed

end
